theory Spec2Isabelle
  imports Main
begin

section \<open>The QFileSystemModel excerpt (qfilesystemmodel.cpp)\<close>

subsection \<open>Toolkit value types the excerpt handles\<close>

text \<open>
  \<open>QDir\<close> is the toolkit's directory value class. The excerpt reads its path
  (\<open>path()\<close>) and writes its name filters (\<open>setNameFilters\<close>) and its entry
  filter (\<open>setFilter\<close>); \<open>QDir::Filters\<close> is a flag word, kept as an integer.
  Copying a \<open>QDir\<close> (\<open>QDir dir(d->rootDir)\<close>) copies the three attributes.
\<close>

record QDir =
  dir_path :: string
  dir_nameFilters :: "string list"
  dir_filter :: int

definition path :: "QDir \<Rightarrow> string" where
  "path dir = dir_path dir"

definition setNameFilters :: "string list \<Rightarrow> QDir \<Rightarrow> QDir" where
  "setNameFilters fs dir = dir\<lparr>dir_nameFilters := fs\<rparr>"

definition setFilter :: "int \<Rightarrow> QDir \<Rightarrow> QDir" where
  "setFilter f dir = dir\<lparr>dir_filter := f\<rparr>"

text \<open>The one signal the excerpt emits, with its argument.\<close>

datatype signal = rootPathChanged string

subsection \<open>The model's state\<close>

text \<open>
  The members of \<open>QFileSystemModelPrivate\<close> the excerpt touches are \<open>rootDir\<close> and
  \<open>forceSort\<close>. Every other private member (node tree, watcher, gatherer, timers) is
  declared in a header that is not part of the excerpt and is kept as one opaque
  component \<open>elided\<close>. \<open>emitted\<close> is the log of the signals the shown code has
  emitted, oldest first.
\<close>

record 'p QFileSystemModel =
  rootDir :: QDir
  forceSort :: bool
  elided :: 'p
  emitted :: "signal list"

subsection \<open>What the excerpt calls but does not define\<close>

text \<open>
  The excerpt is condensed: it calls toolkit functions and private helpers whose
  definitions it leaves out, and it tests an identifier (\<open>showDrives\<close>) it never
  declares. These are parameters of the model, collected in one record:

  \<^item> \<open>Q_OS_WIN\<close>, \<open>Q_OS_WIN32\<close>: the two preprocessor symbols lines 120-128 branch on;
  \<^item> \<open>qt_GetLongPathName\<close>, \<open>fromNativeSeparators\<close>: the path conversions of the
    two Windows branches;
  \<^item> \<open>QDir_new\<close>: the constructor \<open>QDir(const QString &)\<close>; \<open>setPath\<close>:
    \<open>QDir::setPath\<close>. How either turns its string into the stored path is the
    toolkit's business;
  \<^item> \<open>showDrives\<close>: the undeclared condition of line 140, allowed to depend on the
    requested path;
  \<^item> \<open>d_index\<close>: the private lookup \<open>d->index(path)\<close>, taken to be a query
    that reads the model and changes nothing; \<open>QModelIndex_new\<close>: the
    default-constructed (invalid) index;
  \<^item> \<open>fetchMore\<close>, \<open>delayedSort\<close>: the elided helpers of lines 145 and 148. They
    may read the whole model and rewrite the elided private state; they are taken to
    leave \<open>rootDir\<close>, \<open>forceSort\<close> and the log of emitted signals alone;
  \<^item> \<open>nameFilters\<close>, \<open>filter_of\<close>: the elided const accessors
    \<open>QFileSystemModel::nameFilters()\<close> and \<open>QFileSystemModel::filter()\<close>.
\<close>

record ('p, 'i) externals =
  Q_OS_WIN :: bool
  Q_OS_WIN32 :: bool
  qt_GetLongPathName :: "string \<Rightarrow> string"
  fromNativeSeparators :: "string \<Rightarrow> string"
  QDir_new :: "string \<Rightarrow> QDir"
  setPath :: "string \<Rightarrow> QDir \<Rightarrow> QDir"
  showDrives :: "string \<Rightarrow> bool"
  d_index :: "'p QFileSystemModel \<Rightarrow> string \<Rightarrow> 'i"
  QModelIndex_new :: 'i
  fetchMore :: "'i \<Rightarrow> 'p QFileSystemModel \<Rightarrow> 'p"
  delayedSort :: "'p QFileSystemModel \<Rightarrow> 'p"
  nameFilters :: "'p QFileSystemModel \<Rightarrow> string list"
  filter_of :: "'p QFileSystemModel \<Rightarrow> int"

subsection \<open>The member functions the excerpt defines\<close>

text \<open>
  Every member function takes the model and returns its result together with the model
  afterwards, also the \<open>const\<close> ones, so that what a call leaves unchanged is a
  statement about the returned model.
\<close>

text \<open>Lines 152-156: \<open>QString QFileSystemModel::rootPath() const\<close>.\<close>

definition rootPath :: "'p QFileSystemModel \<Rightarrow> string \<times> 'p QFileSystemModel" where
  "rootPath m = (path (rootDir m), m)"

text \<open>
  Lines 120-128: the value of \<open>longNewPath\<close>, the requested path after the
  platform's conversion.
\<close>

definition longNewPath :: "('p, 'i) externals \<Rightarrow> string \<Rightarrow> string" where
  "longNewPath x newPath =
     (if Q_OS_WIN x
      then (if Q_OS_WIN32 x then qt_GetLongPathName x newPath
            else fromNativeSeparators x newPath)
      else newPath)"

text \<open>
  Lines 117-150: \<open>QModelIndex QFileSystemModel::setRootPath(const QString &newPath)\<close>.
  The statements after the early return are taken in source order; \<open>m1\<close> .. \<open>m6\<close>
  are the model after lines 137, 140-144, 145, 146, 147 and 148.
\<close>

definition setRootPath ::
  "('p, 'i) externals \<Rightarrow> string \<Rightarrow> 'p QFileSystemModel \<Rightarrow> 'i \<times> 'p QFileSystemModel" where
  "setRootPath x newPath m =
     (let lp = longNewPath x newPath in
      if path (rootDir m) = lp then (d_index x m (fst (rootPath m)), m)
      else
        let m1 = m\<lparr>rootDir := QDir_new x lp\<rparr>;
            (newRootIndex, m2) =
               (if showDrives x lp
                then (QModelIndex_new x, m1\<lparr>rootDir := setPath x [] (rootDir m1)\<rparr>)
                else (d_index x m1 (path (rootDir m1)), m1));
            m3 = m2\<lparr>elided := fetchMore x newRootIndex m2\<rparr>;
            m4 = m3\<lparr>emitted := emitted m3 @ [rootPathChanged lp]\<rparr>;
            m5 = m4\<lparr>forceSort := True\<rparr>;
            m6 = m5\<lparr>elided := delayedSort x m5\<rparr>
        in (newRootIndex, m6))"

text \<open>Lines 158-165: \<open>QDir QFileSystemModel::rootDirectory() const\<close>.\<close>

definition rootDirectory ::
  "('p, 'i) externals \<Rightarrow> 'p QFileSystemModel \<Rightarrow> QDir \<times> 'p QFileSystemModel" where
  "rootDirectory x m =
     (let dir = rootDir m;
          dir = setNameFilters (nameFilters x m) dir;
          dir = setFilter (filter_of x m) dir
      in (dir, m))"






subsection \<open>A small instance to run the model on\<close>

text \<open>
  A non-Windows build in which a \<open>QDir\<close> stores the string it is given, the drives
  view is requested by the empty path or by the name \<open>Computer\<close>, a model index is the
  path it was looked up for, and the elided private state is the pair of name filters
  and entry filter the two accessors read.
\<close>

definition plain :: "(string list \<times> int, string option) externals" where
  "plain =
     \<lparr> Q_OS_WIN = False,
       Q_OS_WIN32 = False,
       qt_GetLongPathName = (\<lambda>p. p),
       fromNativeSeparators = (\<lambda>p. p),
       QDir_new = (\<lambda>p. \<lparr>dir_path = p, dir_nameFilters = [], dir_filter = 0\<rparr>),
       setPath = (\<lambda>p dir. dir\<lparr>dir_path := p\<rparr>),
       showDrives = (\<lambda>p. p = [] \<or> p = ''Computer''),
       d_index = (\<lambda>m p. Some p),
       QModelIndex_new = None,
       fetchMore = (\<lambda>i m. elided m),
       delayedSort = (\<lambda>m. elided m),
       nameFilters = (\<lambda>m. fst (elided m)),
       filter_of = (\<lambda>m. snd (elided m)) \<rparr>"

text \<open>
  A freshly built model: empty root path (what \<open>tst_QFileSystemModel::rootPath\<close>
  expects of a new model, line 77), nothing emitted yet.
\<close>

definition fresh :: "(string list \<times> int) QFileSystemModel" where
  "fresh =
     \<lparr> rootDir = \<lparr>dir_path = [], dir_nameFilters = [], dir_filter = 0\<rparr>,
       forceSort = False,
       elided = ([''*.txt''], 7),
       emitted = [] \<rparr>"


section \<open>The four test translation units\<close>

subsection \<open>Test functions as scripts of toolkit calls\<close>

text \<open>
  A test function is a script run against the toolkit: declarations, calls and Qt Test
  macro invocations, with two \<open>if\<close> statements, a few range-based \<open>for\<close> loops and
  some preprocessor conditionals. The toolkit itself is not part of the sources, so what
  a test function contributes is the sequence of toolkit operations and checks it
  performs. Each function is transcribed statement by statement, in source order; the
  number noted after a statement is the line of the source file it starts on.

  A statement lists the named toolkit calls it evaluates, left to right as written:

  \<^item> \<open>New C\<close>: an object of class \<open>C\<close> is constructed, by a declaration
    \<open>C v;\<close> or \<open>C v(args);\<close>, by a temporary \<open>C(args)\<close> or by
    \<open>new C(args)\<close> (a declaration \<open>C v = e;\<close> contributes the calls of \<open>e\<close>);
  \<^item> \<open>Call C f\<close>: the member function \<open>f\<close> is called on an expression of class
    \<open>C\<close>;
  \<^item> \<open>Static C f\<close>: the static member or namespace function \<open>C::f\<close> is called;
  \<^item> \<open>Spy v C s\<close>: the declaration \<open>QSignalSpy v(&obj, SIGNAL(s));\<close> with
    \<open>obj\<close> of class \<open>C\<close>;
  \<^item> \<open>OnSpy v f\<close>: the member function \<open>f\<close> is called on the spy \<open>v\<close>.

  Operators, enumerators and conversions to built-in types are not listed.
\<close>

datatype call =
    New string
  | Call string string
  | Static string string
  | Spy string string string
  | OnSpy string string

text \<open>
  \<^item> \<open>Do cs\<close>: a declaration or expression statement outside any macro;
  \<^item> \<open>Check m cs\<close>: the statement \<open>m(...);\<close> for an upper-case macro \<open>m\<close>;
  \<^item> \<open>Cond cs body\<close>: \<open>if (cond) { body }\<close> (no test has an \<open>else\<close>);
  \<^item> \<open>Loop body\<close>: \<open>for (const QString &x : xs) { body }\<close>;
  \<^item> \<open>Ifdef c yes no\<close>: \<open>#ifdef c\<close> or \<open>#if c\<close>, with the statements before and
    after \<open>#else\<close>;
  \<^item> \<open>Return cs\<close>, \<open>Throw cs\<close>: \<open>return e;\<close> and \<open>throw e;\<close>.
\<close>

datatype stmt =
    Do "call list"
  | Check string "call list"
  | Cond "call list" "stmt list"
  | Loop "stmt list"
  | Ifdef string "stmt list" "stmt list"
  | Return "call list"
  | Throw "call list"

text \<open>
  A member function definition \<open>R tst_X::f() { ... }\<close> with its result type, and a
  translation unit with the classes it declares (name and base class) and the functions
  it defines.
\<close>

record test_function =
  fn_result :: string
  fn_name :: string
  fn_body :: "stmt list"

record test_unit =
  tu_file :: string
  tu_classes :: "(string \<times> string) list"
  tu_functions :: "test_function list"

subsection \<open>tst_qfilesystemwatcher.cpp\<close>

text \<open>Lines 32-36: \<open>void tst_QFileSystemWatcher::initTestCase()\<close>.\<close>

definition tst_QFileSystemWatcher_initTestCase :: "stmt list" where
  "tst_QFileSystemWatcher_initTestCase =
     [Check ''QVERIFY'' [Call ''QTemporaryDir'' ''isValid''],  \<comment> \<open>34\<close>
      Do [Call ''QTemporaryDir'' ''path'']]  \<comment> \<open>35\<close>"

text \<open>Lines 38-41: \<open>void tst_QFileSystemWatcher::cleanupTestCase()\<close>.\<close>

definition tst_QFileSystemWatcher_cleanupTestCase :: "stmt list" where
  "tst_QFileSystemWatcher_cleanupTestCase =
     []"

text \<open>Lines 43-61: \<open>void tst_QFileSystemWatcher::addPath()\<close>.\<close>

definition tst_QFileSystemWatcher_addPath :: "stmt list" where
  "tst_QFileSystemWatcher_addPath =
     [Do [New ''QFileSystemWatcher''],  \<comment> \<open>45\<close>
      Do [],  \<comment> \<open>46\<close>
      Do [New ''QFile''],  \<comment> \<open>49\<close>
      Check ''QVERIFY'' [Call ''QFile'' ''open''],  \<comment> \<open>50\<close>
      Do [Call ''QFile'' ''write''],  \<comment> \<open>51\<close>
      Do [Call ''QFile'' ''close''],  \<comment> \<open>52\<close>
      Do [Call ''QFileSystemWatcher'' ''addPath''],  \<comment> \<open>55\<close>
      Check ''QVERIFY'' [],  \<comment> \<open>56\<close>
      Do [Call ''QFileSystemWatcher'' ''files''],  \<comment> \<open>59\<close>
      Check ''QVERIFY'' [Call ''QStringList'' ''contains'']]  \<comment> \<open>60\<close>"

text \<open>Lines 63-88: \<open>void tst_QFileSystemWatcher::addPaths()\<close>.\<close>

definition tst_QFileSystemWatcher_addPaths :: "stmt list" where
  "tst_QFileSystemWatcher_addPaths =
     [Do [New ''QFileSystemWatcher''],  \<comment> \<open>65\<close>
      Do [New ''QStringList''],  \<comment> \<open>67\<close>
      Do [],  \<comment> \<open>68\<close>
      Loop  \<comment> \<open>72\<close>
        [Do [New ''QFile''],  \<comment> \<open>73\<close>
         Check ''QVERIFY'' [Call ''QFile'' ''open''],  \<comment> \<open>74\<close>
         Do [Call ''QFile'' ''write''],  \<comment> \<open>75\<close>
         Do [Call ''QFile'' ''close'']],  \<comment> \<open>76\<close>
      Do [Call ''QFileSystemWatcher'' ''addPaths''],  \<comment> \<open>80\<close>
      Check ''QVERIFY'' [Call ''QStringList'' ''isEmpty''],  \<comment> \<open>81\<close>
      Do [Call ''QFileSystemWatcher'' ''files''],  \<comment> \<open>84\<close>
      Loop  \<comment> \<open>85\<close>
        [Check ''QVERIFY'' [Call ''QStringList'' ''contains'']]]  \<comment> \<open>86\<close>"

text \<open>Lines 90-111: \<open>void tst_QFileSystemWatcher::removePath()\<close>.\<close>

definition tst_QFileSystemWatcher_removePath :: "stmt list" where
  "tst_QFileSystemWatcher_removePath =
     [Do [New ''QFileSystemWatcher''],  \<comment> \<open>92\<close>
      Do [],  \<comment> \<open>93\<close>
      Do [New ''QFile''],  \<comment> \<open>96\<close>
      Check ''QVERIFY'' [Call ''QFile'' ''open''],  \<comment> \<open>97\<close>
      Do [Call ''QFile'' ''write''],  \<comment> \<open>98\<close>
      Do [Call ''QFile'' ''close''],  \<comment> \<open>99\<close>
      Do [Call ''QFileSystemWatcher'' ''addPath''],  \<comment> \<open>101\<close>
      Check ''QVERIFY''
         [Call ''QFileSystemWatcher'' ''files'',
          Call ''QStringList'' ''contains''],  \<comment> \<open>102\<close>
      Do [Call ''QFileSystemWatcher'' ''removePath''],  \<comment> \<open>105\<close>
      Check ''QVERIFY'' [],  \<comment> \<open>106\<close>
      Do [Call ''QFileSystemWatcher'' ''files''],  \<comment> \<open>109\<close>
      Check ''QVERIFY'' [Call ''QStringList'' ''contains'']]  \<comment> \<open>110\<close>"

text \<open>Lines 113-141: \<open>void tst_QFileSystemWatcher::removePaths()\<close>.\<close>

definition tst_QFileSystemWatcher_removePaths :: "stmt list" where
  "tst_QFileSystemWatcher_removePaths =
     [Do [New ''QFileSystemWatcher''],  \<comment> \<open>115\<close>
      Do [New ''QStringList''],  \<comment> \<open>117\<close>
      Do [],  \<comment> \<open>118\<close>
      Loop  \<comment> \<open>122\<close>
        [Do [New ''QFile''],  \<comment> \<open>123\<close>
         Check ''QVERIFY'' [Call ''QFile'' ''open''],  \<comment> \<open>124\<close>
         Do [Call ''QFile'' ''write''],  \<comment> \<open>125\<close>
         Do [Call ''QFile'' ''close''],  \<comment> \<open>126\<close>
         Do [Call ''QFileSystemWatcher'' ''addPath'']],  \<comment> \<open>127\<close>
      Check ''QVERIFY''
         [Call ''QFileSystemWatcher'' ''files'',
          Call ''QStringList'' ''size''],  \<comment> \<open>130\<close>
      Do [Call ''QFileSystemWatcher'' ''removePaths''],  \<comment> \<open>133\<close>
      Check ''QVERIFY'' [Call ''QStringList'' ''isEmpty''],  \<comment> \<open>134\<close>
      Do [Call ''QFileSystemWatcher'' ''files''],  \<comment> \<open>137\<close>
      Loop  \<comment> \<open>138\<close>
        [Check ''QVERIFY'' [Call ''QStringList'' ''contains'']]]  \<comment> \<open>139\<close>"

text \<open>Lines 143-166: \<open>void tst_QFileSystemWatcher::files()\<close>.\<close>

definition tst_QFileSystemWatcher_files :: "stmt list" where
  "tst_QFileSystemWatcher_files =
     [Do [New ''QFileSystemWatcher''],  \<comment> \<open>145\<close>
      Do [New ''QStringList''],  \<comment> \<open>147\<close>
      Do [],  \<comment> \<open>148\<close>
      Loop  \<comment> \<open>152\<close>
        [Do [New ''QFile''],  \<comment> \<open>153\<close>
         Check ''QVERIFY'' [Call ''QFile'' ''open''],  \<comment> \<open>154\<close>
         Do [Call ''QFile'' ''write''],  \<comment> \<open>155\<close>
         Do [Call ''QFile'' ''close''],  \<comment> \<open>156\<close>
         Do [Call ''QFileSystemWatcher'' ''addPath'']],  \<comment> \<open>157\<close>
      Do [Call ''QFileSystemWatcher'' ''files''],  \<comment> \<open>160\<close>
      Check ''QCOMPARE''
         [Call ''QStringList'' ''size'',
          Call ''QStringList'' ''size''],  \<comment> \<open>161\<close>
      Loop  \<comment> \<open>163\<close>
        [Check ''QVERIFY'' [Call ''QStringList'' ''contains'']]]  \<comment> \<open>164\<close>"

text \<open>Lines 168-179: \<open>void tst_QFileSystemWatcher::directories()\<close>.\<close>

definition tst_QFileSystemWatcher_directories :: "stmt list" where
  "tst_QFileSystemWatcher_directories =
     [Do [New ''QFileSystemWatcher''],  \<comment> \<open>170\<close>
      Do [],  \<comment> \<open>172\<close>
      Do [New ''QDir'', Call ''QDir'' ''mkdir''],  \<comment> \<open>173\<close>
      Do [Call ''QFileSystemWatcher'' ''addPath''],  \<comment> \<open>175\<close>
      Do [Call ''QFileSystemWatcher'' ''directories''],  \<comment> \<open>177\<close>
      Check ''QVERIFY'' [Call ''QStringList'' ''contains'']]  \<comment> \<open>178\<close>"

text \<open>Lines 181-205: \<open>void tst_QFileSystemWatcher::fileChanged()\<close>.\<close>

definition tst_QFileSystemWatcher_fileChanged :: "stmt list" where
  "tst_QFileSystemWatcher_fileChanged =
     [Do [New ''QFileSystemWatcher''],  \<comment> \<open>183\<close>
      Do [],  \<comment> \<open>184\<close>
      Do [New ''QFile''],  \<comment> \<open>187\<close>
      Check ''QVERIFY'' [Call ''QFile'' ''open''],  \<comment> \<open>188\<close>
      Do [Call ''QFile'' ''write''],  \<comment> \<open>189\<close>
      Do [Call ''QFile'' ''close''],  \<comment> \<open>190\<close>
      Do [Call ''QFileSystemWatcher'' ''addPath''],  \<comment> \<open>192\<close>
      Do [Spy ''fileChangedSpy'' ''QFileSystemWatcher'' ''fileChanged(QString)''],  \<comment> \<open>194\<close>
      Check ''QVERIFY'' [Call ''QFile'' ''open''],  \<comment> \<open>197\<close>
      Do [Call ''QFile'' ''write''],  \<comment> \<open>198\<close>
      Do [Call ''QFile'' ''close''],  \<comment> \<open>199\<close>
      Check ''QTRY_VERIFY'' [OnSpy ''fileChangedSpy'' ''count''],  \<comment> \<open>202\<close>
      Check ''QCOMPARE''
         [OnSpy ''fileChangedSpy'' ''at'',
          Call ''QList<QVariant>'' ''at'',
          Call ''QVariant'' ''toString'']]  \<comment> \<open>204\<close>"

text \<open>Lines 207-228: \<open>void tst_QFileSystemWatcher::directoryChanged()\<close>.\<close>

definition tst_QFileSystemWatcher_directoryChanged :: "stmt list" where
  "tst_QFileSystemWatcher_directoryChanged =
     [Do [New ''QFileSystemWatcher''],  \<comment> \<open>209\<close>
      Do [],  \<comment> \<open>210\<close>
      Do [New ''QDir'', Call ''QDir'' ''mkdir''],  \<comment> \<open>211\<close>
      Do [Call ''QFileSystemWatcher'' ''addPath''],  \<comment> \<open>213\<close>
      Do [Spy ''dirChangedSpy'' ''QFileSystemWatcher'' ''directoryChanged(QString)''],  \<comment> \<open>215\<close>
      Do [],  \<comment> \<open>218\<close>
      Do [New ''QFile''],  \<comment> \<open>219\<close>
      Check ''QVERIFY'' [Call ''QFile'' ''open''],  \<comment> \<open>220\<close>
      Do [Call ''QFile'' ''write''],  \<comment> \<open>221\<close>
      Do [Call ''QFile'' ''close''],  \<comment> \<open>222\<close>
      Check ''QTRY_VERIFY'' [OnSpy ''dirChangedSpy'' ''count''],  \<comment> \<open>225\<close>
      Check ''QCOMPARE''
         [OnSpy ''dirChangedSpy'' ''at'',
          Call ''QList<QVariant>'' ''at'',
          Call ''QVariant'' ''toString'']]  \<comment> \<open>227\<close>"

text \<open>Lines 230-261: \<open>void tst_QFileSystemWatcher::multipleWatchers()\<close>.\<close>

definition tst_QFileSystemWatcher_multipleWatchers :: "stmt list" where
  "tst_QFileSystemWatcher_multipleWatchers =
     [Do [New ''QFileSystemWatcher''],  \<comment> \<open>232\<close>
      Do [New ''QFileSystemWatcher''],  \<comment> \<open>233\<close>
      Do [],  \<comment> \<open>235\<close>
      Do [New ''QFile''],  \<comment> \<open>238\<close>
      Check ''QVERIFY'' [Call ''QFile'' ''open''],  \<comment> \<open>239\<close>
      Do [Call ''QFile'' ''write''],  \<comment> \<open>240\<close>
      Do [Call ''QFile'' ''close''],  \<comment> \<open>241\<close>
      Do [Call ''QFileSystemWatcher'' ''addPath''],  \<comment> \<open>244\<close>
      Do [Call ''QFileSystemWatcher'' ''addPath''],  \<comment> \<open>245\<close>
      Do [Spy ''spy1'' ''QFileSystemWatcher'' ''fileChanged(QString)''],  \<comment> \<open>247\<close>
      Do [Spy ''spy2'' ''QFileSystemWatcher'' ''fileChanged(QString)''],  \<comment> \<open>248\<close>
      Check ''QVERIFY'' [Call ''QFile'' ''open''],  \<comment> \<open>251\<close>
      Do [Call ''QFile'' ''write''],  \<comment> \<open>252\<close>
      Do [Call ''QFile'' ''close''],  \<comment> \<open>253\<close>
      Check ''QTRY_VERIFY'' [OnSpy ''spy1'' ''count''],  \<comment> \<open>256\<close>
      Check ''QTRY_VERIFY'' [OnSpy ''spy2'' ''count''],  \<comment> \<open>257\<close>
      Check ''QCOMPARE''
         [OnSpy ''spy1'' ''at'',
          Call ''QList<QVariant>'' ''at'',
          Call ''QVariant'' ''toString''],  \<comment> \<open>259\<close>
      Check ''QCOMPARE''
         [OnSpy ''spy2'' ''at'',
          Call ''QList<QVariant>'' ''at'',
          Call ''QVariant'' ''toString'']]  \<comment> \<open>260\<close>"

text \<open>
  The translation unit: the one class it declares (line 9) with its base class, and
  the member functions it defines, in file order.
\<close>

definition tst_qfilesystemwatcher :: test_unit where
  "tst_qfilesystemwatcher =
     \<lparr> tu_file = ''tst_qfilesystemwatcher.cpp'',
       tu_classes = [(''tst_QFileSystemWatcher'', ''QObject'')],
       tu_functions =
         [\<lparr>fn_result = ''void'', fn_name = ''initTestCase'',
            fn_body = tst_QFileSystemWatcher_initTestCase\<rparr>,
          \<lparr>fn_result = ''void'', fn_name = ''cleanupTestCase'',
            fn_body = tst_QFileSystemWatcher_cleanupTestCase\<rparr>,
          \<lparr>fn_result = ''void'', fn_name = ''addPath'',
            fn_body = tst_QFileSystemWatcher_addPath\<rparr>,
          \<lparr>fn_result = ''void'', fn_name = ''addPaths'',
            fn_body = tst_QFileSystemWatcher_addPaths\<rparr>,
          \<lparr>fn_result = ''void'', fn_name = ''removePath'',
            fn_body = tst_QFileSystemWatcher_removePath\<rparr>,
          \<lparr>fn_result = ''void'', fn_name = ''removePaths'',
            fn_body = tst_QFileSystemWatcher_removePaths\<rparr>,
          \<lparr>fn_result = ''void'', fn_name = ''files'',
            fn_body = tst_QFileSystemWatcher_files\<rparr>,
          \<lparr>fn_result = ''void'', fn_name = ''directories'',
            fn_body = tst_QFileSystemWatcher_directories\<rparr>,
          \<lparr>fn_result = ''void'', fn_name = ''fileChanged'',
            fn_body = tst_QFileSystemWatcher_fileChanged\<rparr>,
          \<lparr>fn_result = ''void'', fn_name = ''directoryChanged'',
            fn_body = tst_QFileSystemWatcher_directoryChanged\<rparr>,
          \<lparr>fn_result = ''void'', fn_name = ''multipleWatchers'',
            fn_body = tst_QFileSystemWatcher_multipleWatchers\<rparr>] \<rparr>"

subsection \<open>tst_qfilesystemmodel.cpp\<close>

text \<open>Lines 43-67: \<open>void tst_QFileSystemModel::initTestCase()\<close>.\<close>

definition tst_QFileSystemModel_initTestCase :: "stmt list" where
  "tst_QFileSystemModel_initTestCase =
     [Check ''QVERIFY'' [Call ''QTemporaryDir'' ''isValid''],  \<comment> \<open>45\<close>
      Do [Call ''QTemporaryDir'' ''path''],  \<comment> \<open>46\<close>
      Do [New ''QDir''],  \<comment> \<open>49\<close>
      Check ''QVERIFY'' [Call ''QDir'' ''mkdir''],  \<comment> \<open>50\<close>
      Check ''QVERIFY'' [Call ''QDir'' ''mkdir''],  \<comment> \<open>51\<close>
      Do [New ''QFile''],  \<comment> \<open>53\<close>
      Check ''QVERIFY'' [Call ''QFile'' ''open''],  \<comment> \<open>54\<close>
      Do [Call ''QFile'' ''write''],  \<comment> \<open>55\<close>
      Do [Call ''QFile'' ''close''],  \<comment> \<open>56\<close>
      Do [New ''QFile''],  \<comment> \<open>58\<close>
      Check ''QVERIFY'' [Call ''QFile'' ''open''],  \<comment> \<open>59\<close>
      Do [Call ''QFile'' ''write''],  \<comment> \<open>60\<close>
      Do [Call ''QFile'' ''close''],  \<comment> \<open>61\<close>
      Ifdef ''Q_OS_WIN''  \<comment> \<open>64\<close>
        [Do [Static ''QFile'' ''setPermissions'']]  \<comment> \<open>65\<close>
        []]"

text \<open>Lines 69-72: \<open>void tst_QFileSystemModel::cleanupTestCase()\<close>.\<close>

definition tst_QFileSystemModel_cleanupTestCase :: "stmt list" where
  "tst_QFileSystemModel_cleanupTestCase =
     []"

text \<open>Lines 74-82: \<open>void tst_QFileSystemModel::rootPath()\<close>.\<close>

definition tst_QFileSystemModel_rootPath :: "stmt list" where
  "tst_QFileSystemModel_rootPath =
     [Do [New ''QFileSystemModel''],  \<comment> \<open>76\<close>
      Check ''QCOMPARE''
         [Call ''QFileSystemModel'' ''rootPath'',
          New ''QString''],  \<comment> \<open>77\<close>
      Do [Static ''QDir'' ''homePath''],  \<comment> \<open>79\<close>
      Do [Call ''QFileSystemModel'' ''setRootPath''],  \<comment> \<open>80\<close>
      Check ''QCOMPARE'' [Call ''QFileSystemModel'' ''rootPath'']]  \<comment> \<open>81\<close>"

text \<open>Lines 84-108: \<open>void tst_QFileSystemModel::index()\<close>.\<close>

definition tst_QFileSystemModel_index :: "stmt list" where
  "tst_QFileSystemModel_index =
     [Do [New ''QFileSystemModel''],  \<comment> \<open>86\<close>
      Do [Call ''QFileSystemModel'' ''setRootPath''],  \<comment> \<open>87\<close>
      Do [Call ''QFileSystemModel'' ''index''],  \<comment> \<open>90\<close>
      Check ''QVERIFY'' [Call ''QModelIndex'' ''isValid''],  \<comment> \<open>91\<close>
      Do [Call ''QFileSystemModel'' ''index''],  \<comment> \<open>94\<close>
      Check ''QVERIFY'' [Call ''QModelIndex'' ''isValid''],  \<comment> \<open>95\<close>
      Check ''QCOMPARE'' [Call ''QFileSystemModel'' ''filePath''],  \<comment> \<open>96\<close>
      Do [Spy ''loadedSpy'' ''QFileSystemModel'' ''directoryLoaded(QString)''],  \<comment> \<open>99\<close>
      Check ''QVERIFY'' [OnSpy ''loadedSpy'' ''wait''],  \<comment> \<open>100\<close>
      Do [Call ''QFileSystemModel'' ''index''],  \<comment> \<open>103\<close>
      Cond [Call ''QFileSystemModel'' ''rowCount'']  \<comment> \<open>104\<close>
        [Check ''QVERIFY'' [Call ''QModelIndex'' ''isValid''],  \<comment> \<open>105\<close>
         Check ''QVERIFY''
            [Call ''QFileSystemModel'' ''fileName'',
             Call ''QString'' ''isEmpty'']]]  \<comment> \<open>106\<close>"

text \<open>Lines 110-132: \<open>void tst_QFileSystemModel::data()\<close>.\<close>

definition tst_QFileSystemModel_data :: "stmt list" where
  "tst_QFileSystemModel_data =
     [Do [New ''QFileSystemModel''],  \<comment> \<open>112\<close>
      Do [Call ''QFileSystemModel'' ''setRootPath''],  \<comment> \<open>113\<close>
      Do [Spy ''loadedSpy'' ''QFileSystemModel'' ''directoryLoaded(QString)''],  \<comment> \<open>115\<close>
      Check ''QVERIFY'' [OnSpy ''loadedSpy'' ''wait''],  \<comment> \<open>116\<close>
      Do [Call ''QFileSystemModel'' ''index''],  \<comment> \<open>118\<close>
      Check ''QVERIFY'' [Call ''QModelIndex'' ''isValid''],  \<comment> \<open>119\<close>
      Do [Call ''QFileSystemModel'' ''data''],  \<comment> \<open>122\<close>
      Check ''QVERIFY'' [Call ''QVariant'' ''isValid''],  \<comment> \<open>123\<close>
      Do [Call ''QFileSystemModel'' ''data''],  \<comment> \<open>126\<close>
      Check ''QVERIFY'' [Call ''QVariant'' ''isValid''],  \<comment> \<open>127\<close>
      Do [Call ''QFileSystemModel'' ''data''],  \<comment> \<open>130\<close>
      Check ''QCOMPARE'' [Call ''QVariant'' ''toString'']]  \<comment> \<open>131\<close>"

text \<open>Lines 134-149: \<open>void tst_QFileSystemModel::setRootPath()\<close>.\<close>

definition tst_QFileSystemModel_setRootPath :: "stmt list" where
  "tst_QFileSystemModel_setRootPath =
     [Do [New ''QFileSystemModel''],  \<comment> \<open>136\<close>
      Do [Spy ''rootPathChangedSpy'' ''QFileSystemModel'' ''rootPathChanged(QString)''],  \<comment> \<open>138\<close>
      Do [],  \<comment> \<open>140\<close>
      Do [Call ''QFileSystemModel'' ''setRootPath''],  \<comment> \<open>141\<close>
      Check ''QCOMPARE'' [Call ''QFileSystemModel'' ''rootPath''],  \<comment> \<open>143\<close>
      Check ''QCOMPARE'' [OnSpy ''rootPathChangedSpy'' ''count''],  \<comment> \<open>144\<close>
      Check ''QCOMPARE''
         [OnSpy ''rootPathChangedSpy'' ''at'',
          Call ''QList<QVariant>'' ''at'',
          Call ''QVariant'' ''toString''],  \<comment> \<open>145\<close>
      Check ''QVERIFY'' [Call ''QModelIndex'' ''isValid'']]  \<comment> \<open>148\<close>"

text \<open>Lines 151-165: \<open>void tst_QFileSystemModel::rowCount()\<close>.\<close>

definition tst_QFileSystemModel_rowCount :: "stmt list" where
  "tst_QFileSystemModel_rowCount =
     [Do [New ''QFileSystemModel''],  \<comment> \<open>153\<close>
      Do [Call ''QFileSystemModel'' ''setRootPath''],  \<comment> \<open>154\<close>
      Do [Call ''QFileSystemModel'' ''index''],  \<comment> \<open>156\<close>
      Do [Spy ''loadedSpy'' ''QFileSystemModel'' ''directoryLoaded(QString)''],  \<comment> \<open>159\<close>
      Check ''QVERIFY'' [OnSpy ''loadedSpy'' ''wait''],  \<comment> \<open>160\<close>
      Do [Call ''QFileSystemModel'' ''rowCount''],  \<comment> \<open>163\<close>
      Check ''QVERIFY'' []]  \<comment> \<open>164\<close>"

text \<open>Lines 167-191: \<open>void tst_QFileSystemModel::remove()\<close>.\<close>

definition tst_QFileSystemModel_remove :: "stmt list" where
  "tst_QFileSystemModel_remove =
     [Do [New ''QTemporaryFile''],  \<comment> \<open>170\<close>
      Check ''QVERIFY'' [Call ''QTemporaryFile'' ''open''],  \<comment> \<open>171\<close>
      Do [Call ''QTemporaryFile'' ''write''],  \<comment> \<open>172\<close>
      Do [Call ''QTemporaryFile'' ''close''],  \<comment> \<open>173\<close>
      Do [Call ''QTemporaryFile'' ''fileName''],  \<comment> \<open>174\<close>
      Do [New ''QFileSystemModel''],  \<comment> \<open>176\<close>
      Do [Call ''QFileSystemModel'' ''setRootPath''],  \<comment> \<open>177\<close>
      Do [Spy ''loadedSpy'' ''QFileSystemModel'' ''directoryLoaded(QString)''],  \<comment> \<open>179\<close>
      Check ''QVERIFY'' [OnSpy ''loadedSpy'' ''wait''],  \<comment> \<open>180\<close>
      Do [Call ''QFileSystemModel'' ''index''],  \<comment> \<open>182\<close>
      Check ''QVERIFY'' [Call ''QModelIndex'' ''isValid''],  \<comment> \<open>183\<close>
      Do [Call ''QFileSystemModel'' ''remove''],  \<comment> \<open>186\<close>
      Check ''QVERIFY'' [],  \<comment> \<open>187\<close>
      Check ''QVERIFY'' [Static ''QFile'' ''exists'']]  \<comment> \<open>190\<close>"

text \<open>Lines 193-211: \<open>void tst_QFileSystemModel::mkdir()\<close>.\<close>

definition tst_QFileSystemModel_mkdir :: "stmt list" where
  "tst_QFileSystemModel_mkdir =
     [Do [New ''QFileSystemModel''],  \<comment> \<open>195\<close>
      Do [Call ''QFileSystemModel'' ''setRootPath''],  \<comment> \<open>196\<close>
      Do [Spy ''loadedSpy'' ''QFileSystemModel'' ''directoryLoaded(QString)''],  \<comment> \<open>198\<close>
      Check ''QVERIFY'' [OnSpy ''loadedSpy'' ''wait''],  \<comment> \<open>199\<close>
      Do [Call ''QFileSystemModel'' ''index''],  \<comment> \<open>201\<close>
      Check ''QVERIFY'' [Call ''QModelIndex'' ''isValid''],  \<comment> \<open>202\<close>
      Do [],  \<comment> \<open>204\<close>
      Do [Call ''QFileSystemModel'' ''mkdir''],  \<comment> \<open>205\<close>
      Check ''QVERIFY'' [Call ''QModelIndex'' ''isValid''],  \<comment> \<open>206\<close>
      Do [],  \<comment> \<open>208\<close>
      Check ''QCOMPARE'' [Call ''QFileSystemModel'' ''filePath''],  \<comment> \<open>209\<close>
      Check ''QVERIFY'' [New ''QDir'', Call ''QDir'' ''exists'']]  \<comment> \<open>210\<close>"

text \<open>Lines 213-219: \<open>void tst_QFileSystemModel::filters()\<close>.\<close>

definition tst_QFileSystemModel_filters :: "stmt list" where
  "tst_QFileSystemModel_filters =
     [Do [New ''QFileSystemModel''],  \<comment> \<open>215\<close>
      Do [],  \<comment> \<open>216\<close>
      Do [Call ''QFileSystemModel'' ''setFilter''],  \<comment> \<open>217\<close>
      Check ''QCOMPARE'' [Call ''QFileSystemModel'' ''filter'']]  \<comment> \<open>218\<close>"

text \<open>Lines 221-227: \<open>void tst_QFileSystemModel::nameFilters()\<close>.\<close>

definition tst_QFileSystemModel_nameFilters :: "stmt list" where
  "tst_QFileSystemModel_nameFilters =
     [Do [New ''QFileSystemModel''],  \<comment> \<open>223\<close>
      Do [New ''QStringList''],  \<comment> \<open>224\<close>
      Do [Call ''QFileSystemModel'' ''setNameFilters''],  \<comment> \<open>225\<close>
      Check ''QCOMPARE'' [Call ''QFileSystemModel'' ''nameFilters'']]  \<comment> \<open>226\<close>"

text \<open>Lines 229-242: \<open>void tst_QFileSystemModel::permissions()\<close>.\<close>

definition tst_QFileSystemModel_permissions :: "stmt list" where
  "tst_QFileSystemModel_permissions =
     [Do [New ''QFileSystemModel''],  \<comment> \<open>231\<close>
      Do [Call ''QFileSystemModel'' ''setRootPath''],  \<comment> \<open>232\<close>
      Do [Spy ''loadedSpy'' ''QFileSystemModel'' ''directoryLoaded(QString)''],  \<comment> \<open>234\<close>
      Check ''QVERIFY'' [OnSpy ''loadedSpy'' ''wait''],  \<comment> \<open>235\<close>
      Do [Call ''QFileSystemModel'' ''index''],  \<comment> \<open>237\<close>
      Check ''QVERIFY'' [Call ''QModelIndex'' ''isValid''],  \<comment> \<open>238\<close>
      Do [Call ''QFileSystemModel'' ''permissions''],  \<comment> \<open>240\<close>
      Check ''QVERIFY'' []]  \<comment> \<open>241\<close>"

text \<open>Lines 244-258: \<open>void tst_QFileSystemModel::fileInfo()\<close>.\<close>

definition tst_QFileSystemModel_fileInfo :: "stmt list" where
  "tst_QFileSystemModel_fileInfo =
     [Do [New ''QFileSystemModel''],  \<comment> \<open>246\<close>
      Do [Call ''QFileSystemModel'' ''setRootPath''],  \<comment> \<open>247\<close>
      Do [Spy ''loadedSpy'' ''QFileSystemModel'' ''directoryLoaded(QString)''],  \<comment> \<open>249\<close>
      Check ''QVERIFY'' [OnSpy ''loadedSpy'' ''wait''],  \<comment> \<open>250\<close>
      Do [Call ''QFileSystemModel'' ''index''],  \<comment> \<open>252\<close>
      Check ''QVERIFY'' [Call ''QModelIndex'' ''isValid''],  \<comment> \<open>253\<close>
      Do [Call ''QFileSystemModel'' ''fileInfo''],  \<comment> \<open>255\<close>
      Check ''QVERIFY'' [Call ''QFileInfo'' ''exists''],  \<comment> \<open>256\<close>
      Check ''QCOMPARE'' [Call ''QFileInfo'' ''absoluteFilePath'']]  \<comment> \<open>257\<close>"

text \<open>Lines 260-275: \<open>void tst_QFileSystemModel::sort()\<close>.\<close>

definition tst_QFileSystemModel_sort :: "stmt list" where
  "tst_QFileSystemModel_sort =
     [Do [New ''QFileSystemModel''],  \<comment> \<open>262\<close>
      Do [Call ''QFileSystemModel'' ''setRootPath''],  \<comment> \<open>263\<close>
      Do [Spy ''loadedSpy'' ''QFileSystemModel'' ''directoryLoaded(QString)''],  \<comment> \<open>265\<close>
      Check ''QVERIFY'' [OnSpy ''loadedSpy'' ''wait''],  \<comment> \<open>266\<close>
      Do [Call ''QFileSystemModel'' ''sort''],  \<comment> \<open>269\<close>
      Check ''QCOMPARE'' [Call ''QFileSystemModel'' ''sortRole''],  \<comment> \<open>270\<close>
      Do [Call ''QFileSystemModel'' ''sort''],  \<comment> \<open>273\<close>
      Check ''QCOMPARE'' [Call ''QFileSystemModel'' ''sortRole'']]  \<comment> \<open>274\<close>"

text \<open>Lines 277-294: \<open>void tst_QFileSystemModel::icons()\<close>.\<close>

definition tst_QFileSystemModel_icons :: "stmt list" where
  "tst_QFileSystemModel_icons =
     [Do [New ''QFileSystemModel''],  \<comment> \<open>279\<close>
      Do [New ''QFileIconProvider''],  \<comment> \<open>280\<close>
      Do [Call ''QFileSystemModel'' ''setIconProvider''],  \<comment> \<open>281\<close>
      Check ''QCOMPARE'' [Call ''QFileSystemModel'' ''iconProvider''],  \<comment> \<open>283\<close>
      Do [Call ''QFileSystemModel'' ''setRootPath''],  \<comment> \<open>285\<close>
      Do [Spy ''loadedSpy'' ''QFileSystemModel'' ''directoryLoaded(QString)''],  \<comment> \<open>286\<close>
      Check ''QVERIFY'' [OnSpy ''loadedSpy'' ''wait''],  \<comment> \<open>287\<close>
      Do [Call ''QFileSystemModel'' ''index''],  \<comment> \<open>289\<close>
      Check ''QVERIFY'' [Call ''QModelIndex'' ''isValid''],  \<comment> \<open>290\<close>
      Do
         [Call ''QFileSystemModel'' ''data'',
          Call ''QVariant'' ''value<QIcon>''],  \<comment> \<open>292\<close>
      Check ''QVERIFY'' [Call ''QIcon'' ''isNull'']]  \<comment> \<open>293\<close>"

text \<open>Lines 296-307: \<open>void tst_QFileSystemModel::hidden()\<close>.\<close>

definition tst_QFileSystemModel_hidden :: "stmt list" where
  "tst_QFileSystemModel_hidden =
     [Do [New ''QFileSystemModel''],  \<comment> \<open>298\<close>
      Do [Call ''QFileSystemModel'' ''setFilter''],  \<comment> \<open>301\<close>
      Check ''QVERIFY'' [Call ''QFileSystemModel'' ''filter''],  \<comment> \<open>302\<close>
      Do [Call ''QFileSystemModel'' ''setFilter''],  \<comment> \<open>305\<close>
      Check ''QVERIFY'' [Call ''QFileSystemModel'' ''filter'']]  \<comment> \<open>306\<close>"

text \<open>Lines 309-317: \<open>void tst_QFileSystemModel::myComputer()\<close>.\<close>

definition tst_QFileSystemModel_myComputer :: "stmt list" where
  "tst_QFileSystemModel_myComputer =
     [Do [New ''QFileSystemModel''],  \<comment> \<open>311\<close>
      Do [Call ''QFileSystemModel'' ''index''],  \<comment> \<open>312\<close>
      Check ''QVERIFY'' [Call ''QModelIndex'' ''isValid''],  \<comment> \<open>313\<close>
      Do [Call ''QFileSystemModel'' ''data''],  \<comment> \<open>315\<close>
      Check ''QVERIFY'' [Call ''QVariant'' ''isValid'']]  \<comment> \<open>316\<close>"

text \<open>Lines 319-329: \<open>void tst_QFileSystemModel::shortcut()\<close>.\<close>

definition tst_QFileSystemModel_shortcut :: "stmt list" where
  "tst_QFileSystemModel_shortcut =
     [Ifdef ''Q_OS_WIN''  \<comment> \<open>321\<close>
        [Do [New ''QFileSystemModel''],  \<comment> \<open>322\<close>
         Do [Call ''QFileSystemModel'' ''setResolveSymlinks''],  \<comment> \<open>323\<close>
         Check ''QVERIFY'' [Call ''QFileSystemModel'' ''resolveSymlinks''],  \<comment> \<open>324\<close>
         Do [Call ''QFileSystemModel'' ''setResolveSymlinks''],  \<comment> \<open>326\<close>
         Check ''QVERIFY'' [Call ''QFileSystemModel'' ''resolveSymlinks'']]  \<comment> \<open>327\<close>
        []]"

text \<open>Lines 331-340: \<open>void tst_QFileSystemModel::caseSensitivity()\<close>.\<close>

definition tst_QFileSystemModel_caseSensitivity :: "stmt list" where
  "tst_QFileSystemModel_caseSensitivity =
     [Do [New ''QFileSystemModel''],  \<comment> \<open>333\<close>
      Ifdef ''Q_OS_WIN''  \<comment> \<open>335\<close>
        [Check ''QVERIFY'' [Call ''QFileSystemModel'' ''caseSensitivity'']]  \<comment> \<open>336\<close>
        [Check ''QVERIFY'' [Call ''QFileSystemModel'' ''caseSensitivity'']]]  \<comment> \<open>338\<close>"

text \<open>Lines 342-352: \<open>void tst_QFileSystemModel::drives()\<close>.\<close>

definition tst_QFileSystemModel_drives :: "stmt list" where
  "tst_QFileSystemModel_drives =
     [Do [New ''QFileSystemModel''],  \<comment> \<open>344\<close>
      Do [Call ''QFileSystemModel'' ''setRootPath''],  \<comment> \<open>345\<close>
      Do [Spy ''loadedSpy'' ''QFileSystemModel'' ''directoryLoaded(QString)''],  \<comment> \<open>347\<close>
      Check ''QVERIFY'' [OnSpy ''loadedSpy'' ''wait''],  \<comment> \<open>348\<close>
      Check ''QVERIFY'' [Call ''QFileSystemModel'' ''rowCount'']]  \<comment> \<open>351\<close>"

text \<open>
  The translation unit: the one class it declares (line 11) with its base class, and
  the member functions it defines, in file order.
\<close>

definition tst_qfilesystemmodel :: test_unit where
  "tst_qfilesystemmodel =
     \<lparr> tu_file = ''tst_qfilesystemmodel.cpp'',
       tu_classes = [(''tst_QFileSystemModel'', ''QObject'')],
       tu_functions =
         [\<lparr>fn_result = ''void'', fn_name = ''initTestCase'',
            fn_body = tst_QFileSystemModel_initTestCase\<rparr>,
          \<lparr>fn_result = ''void'', fn_name = ''cleanupTestCase'',
            fn_body = tst_QFileSystemModel_cleanupTestCase\<rparr>,
          \<lparr>fn_result = ''void'', fn_name = ''rootPath'',
            fn_body = tst_QFileSystemModel_rootPath\<rparr>,
          \<lparr>fn_result = ''void'', fn_name = ''index'',
            fn_body = tst_QFileSystemModel_index\<rparr>,
          \<lparr>fn_result = ''void'', fn_name = ''data'',
            fn_body = tst_QFileSystemModel_data\<rparr>,
          \<lparr>fn_result = ''void'', fn_name = ''setRootPath'',
            fn_body = tst_QFileSystemModel_setRootPath\<rparr>,
          \<lparr>fn_result = ''void'', fn_name = ''rowCount'',
            fn_body = tst_QFileSystemModel_rowCount\<rparr>,
          \<lparr>fn_result = ''void'', fn_name = ''remove'',
            fn_body = tst_QFileSystemModel_remove\<rparr>,
          \<lparr>fn_result = ''void'', fn_name = ''mkdir'',
            fn_body = tst_QFileSystemModel_mkdir\<rparr>,
          \<lparr>fn_result = ''void'', fn_name = ''filters'',
            fn_body = tst_QFileSystemModel_filters\<rparr>,
          \<lparr>fn_result = ''void'', fn_name = ''nameFilters'',
            fn_body = tst_QFileSystemModel_nameFilters\<rparr>,
          \<lparr>fn_result = ''void'', fn_name = ''permissions'',
            fn_body = tst_QFileSystemModel_permissions\<rparr>,
          \<lparr>fn_result = ''void'', fn_name = ''fileInfo'',
            fn_body = tst_QFileSystemModel_fileInfo\<rparr>,
          \<lparr>fn_result = ''void'', fn_name = ''sort'',
            fn_body = tst_QFileSystemModel_sort\<rparr>,
          \<lparr>fn_result = ''void'', fn_name = ''icons'',
            fn_body = tst_QFileSystemModel_icons\<rparr>,
          \<lparr>fn_result = ''void'', fn_name = ''hidden'',
            fn_body = tst_QFileSystemModel_hidden\<rparr>,
          \<lparr>fn_result = ''void'', fn_name = ''myComputer'',
            fn_body = tst_QFileSystemModel_myComputer\<rparr>,
          \<lparr>fn_result = ''void'', fn_name = ''shortcut'',
            fn_body = tst_QFileSystemModel_shortcut\<rparr>,
          \<lparr>fn_result = ''void'', fn_name = ''caseSensitivity'',
            fn_body = tst_QFileSystemModel_caseSensitivity\<rparr>,
          \<lparr>fn_result = ''void'', fn_name = ''drives'',
            fn_body = tst_QFileSystemModel_drives\<rparr>] \<rparr>"

subsection \<open>tst_qfileinfogatherer.cpp\<close>

text \<open>Lines 30-56: \<open>void tst_QFileInfoGatherer::initTestCase()\<close>.\<close>

definition tst_QFileInfoGatherer_initTestCase :: "stmt list" where
  "tst_QFileInfoGatherer_initTestCase =
     [Check ''QVERIFY'' [Call ''QTemporaryDir'' ''isValid''],  \<comment> \<open>32\<close>
      Do [Call ''QTemporaryDir'' ''path''],  \<comment> \<open>33\<close>
      Do [New ''QDir''],  \<comment> \<open>36\<close>
      Check ''QVERIFY'' [Call ''QDir'' ''mkdir''],  \<comment> \<open>37\<close>
      Do [New ''QFile''],  \<comment> \<open>39\<close>
      Check ''QVERIFY'' [Call ''QFile'' ''open''],  \<comment> \<open>40\<close>
      Do [Call ''QFile'' ''write''],  \<comment> \<open>41\<close>
      Do [Call ''QFile'' ''close''],  \<comment> \<open>42\<close>
      Do [],  \<comment> \<open>45\<close>
      Do [New ''QFile''],  \<comment> \<open>46\<close>
      Check ''QVERIFY'' [Call ''QFile'' ''open''],  \<comment> \<open>47\<close>
      Do [Call ''QFile'' ''write''],  \<comment> \<open>48\<close>
      Do [Call ''QFile'' ''close''],  \<comment> \<open>49\<close>
      Ifdef ''Q_OS_UNIX''  \<comment> \<open>51\<close>
        [Do [],  \<comment> \<open>53\<close>
         Do [Static ''QFile'' ''link'']]  \<comment> \<open>54\<close>
        []]"

text \<open>Lines 58-61: \<open>void tst_QFileInfoGatherer::cleanupTestCase()\<close>.\<close>

definition tst_QFileInfoGatherer_cleanupTestCase :: "stmt list" where
  "tst_QFileInfoGatherer_cleanupTestCase =
     []"

text \<open>Lines 63-80: \<open>void tst_QFileInfoGatherer::basicFileInfo()\<close>.\<close>

definition tst_QFileInfoGatherer_basicFileInfo :: "stmt list" where
  "tst_QFileInfoGatherer_basicFileInfo =
     [Do [New ''QFileSystemModel''],  \<comment> \<open>65\<close>
      Do [Call ''QFileSystemModel'' ''setRootPath''],  \<comment> \<open>66\<close>
      Do [Spy ''loadedSpy'' ''QFileSystemModel'' ''directoryLoaded(QString)''],  \<comment> \<open>68\<close>
      Check ''QVERIFY'' [OnSpy ''loadedSpy'' ''wait''],  \<comment> \<open>69\<close>
      Do [Call ''QFileSystemModel'' ''index''],  \<comment> \<open>71\<close>
      Check ''QVERIFY'' [Call ''QModelIndex'' ''isValid''],  \<comment> \<open>72\<close>
      Do [Call ''QFileSystemModel'' ''fileInfo''],  \<comment> \<open>74\<close>
      Check ''QVERIFY'' [Call ''QFileInfo'' ''exists''],  \<comment> \<open>75\<close>
      Check ''QCOMPARE''
         [Call ''QFileInfo'' ''fileName'',
          New ''QString''],  \<comment> \<open>76\<close>
      Check ''QCOMPARE'' [Call ''QFileInfo'' ''size''],  \<comment> \<open>77\<close>
      Check ''QVERIFY'' [Call ''QFileInfo'' ''isFile''],  \<comment> \<open>78\<close>
      Check ''QVERIFY'' [Call ''QFileInfo'' ''isDir'']]  \<comment> \<open>79\<close>"

text \<open>Lines 82-98: \<open>void tst_QFileInfoGatherer::directoryInfo()\<close>.\<close>

definition tst_QFileInfoGatherer_directoryInfo :: "stmt list" where
  "tst_QFileInfoGatherer_directoryInfo =
     [Do [New ''QFileSystemModel''],  \<comment> \<open>84\<close>
      Do [Call ''QFileSystemModel'' ''setRootPath''],  \<comment> \<open>85\<close>
      Do [Spy ''loadedSpy'' ''QFileSystemModel'' ''directoryLoaded(QString)''],  \<comment> \<open>87\<close>
      Check ''QVERIFY'' [OnSpy ''loadedSpy'' ''wait''],  \<comment> \<open>88\<close>
      Do [Call ''QFileSystemModel'' ''index''],  \<comment> \<open>90\<close>
      Check ''QVERIFY'' [Call ''QModelIndex'' ''isValid''],  \<comment> \<open>91\<close>
      Do [Call ''QFileSystemModel'' ''fileInfo''],  \<comment> \<open>93\<close>
      Check ''QVERIFY'' [Call ''QFileInfo'' ''exists''],  \<comment> \<open>94\<close>
      Check ''QCOMPARE''
         [Call ''QFileInfo'' ''fileName'',
          New ''QString''],  \<comment> \<open>95\<close>
      Check ''QVERIFY'' [Call ''QFileInfo'' ''isDir''],  \<comment> \<open>96\<close>
      Check ''QVERIFY'' [Call ''QFileInfo'' ''isFile'']]  \<comment> \<open>97\<close>"

text \<open>Lines 100-129: \<open>void tst_QFileInfoGatherer::hiddenFiles()\<close>.\<close>

definition tst_QFileInfoGatherer_hiddenFiles :: "stmt list" where
  "tst_QFileInfoGatherer_hiddenFiles =
     [Do [New ''QFileSystemModel''],  \<comment> \<open>102\<close>
      Do [Call ''QFileSystemModel'' ''setRootPath''],  \<comment> \<open>103\<close>
      Do [],  \<comment> \<open>106\<close>
      Do [New ''QFile''],  \<comment> \<open>107\<close>
      Check ''QVERIFY'' [Call ''QFile'' ''open''],  \<comment> \<open>108\<close>
      Do [Call ''QFile'' ''write''],  \<comment> \<open>109\<close>
      Do [Call ''QFile'' ''close''],  \<comment> \<open>110\<close>
      Ifdef ''Q_OS_UNIX''  \<comment> \<open>112\<close>
        [Do [New ''QFileInfo''],  \<comment> \<open>114\<close>
         Check ''QVERIFY'' [Call ''QFileInfo'' ''isHidden'']]  \<comment> \<open>115\<close>
        [],
      Do [Spy ''loadedSpy'' ''QFileSystemModel'' ''directoryLoaded(QString)''],  \<comment> \<open>118\<close>
      Check ''QVERIFY'' [OnSpy ''loadedSpy'' ''wait''],  \<comment> \<open>119\<close>
      Do [Call ''QFileSystemModel'' ''setFilter''],  \<comment> \<open>122\<close>
      Do [Call ''QFileSystemModel'' ''index''],  \<comment> \<open>124\<close>
      Cond [Call ''QModelIndex'' ''isValid'']  \<comment> \<open>125\<close>
        [Do [Call ''QFileSystemModel'' ''fileInfo''],  \<comment> \<open>126\<close>
         Check ''QCOMPARE''
            [Call ''QFileInfo'' ''fileName'',
             New ''QString'']]]  \<comment> \<open>127\<close>"

text \<open>Lines 131-155: \<open>void tst_QFileInfoGatherer::symlinks()\<close>.\<close>

definition tst_QFileInfoGatherer_symlinks :: "stmt list" where
  "tst_QFileInfoGatherer_symlinks =
     [Ifdef ''Q_OS_UNIX''  \<comment> \<open>133\<close>
        [Do [New ''QFileSystemModel''],  \<comment> \<open>134\<close>
         Do [Call ''QFileSystemModel'' ''setRootPath''],  \<comment> \<open>135\<close>
         Do [Spy ''loadedSpy'' ''QFileSystemModel'' ''directoryLoaded(QString)''],  \<comment> \<open>137\<close>
         Check ''QVERIFY'' [OnSpy ''loadedSpy'' ''wait''],  \<comment> \<open>138\<close>
         Do [Call ''QFileSystemModel'' ''index''],  \<comment> \<open>140\<close>
         Check ''QVERIFY'' [Call ''QModelIndex'' ''isValid''],  \<comment> \<open>141\<close>
         Do [Call ''QFileSystemModel'' ''fileInfo''],  \<comment> \<open>143\<close>
         Check ''QVERIFY'' [Call ''QFileInfo'' ''exists''],  \<comment> \<open>144\<close>
         Check ''QCOMPARE''
            [Call ''QFileInfo'' ''fileName'',
             New ''QString''],  \<comment> \<open>145\<close>
         Check ''QVERIFY'' [Call ''QFileInfo'' ''isSymLink''],  \<comment> \<open>146\<close>
         Do [Call ''QFileSystemModel'' ''setResolveSymlinks''],  \<comment> \<open>149\<close>
         Check ''QVERIFY'' [Call ''QFileSystemModel'' ''resolveSymlinks''],  \<comment> \<open>150\<close>
         Do [Call ''QFileSystemModel'' ''setResolveSymlinks''],  \<comment> \<open>152\<close>
         Check ''QVERIFY'' [Call ''QFileSystemModel'' ''resolveSymlinks'']]  \<comment> \<open>153\<close>
        []]"

text \<open>Lines 157-173: \<open>void tst_QFileInfoGatherer::permissions()\<close>.\<close>

definition tst_QFileInfoGatherer_permissions :: "stmt list" where
  "tst_QFileInfoGatherer_permissions =
     [Do [New ''QFileSystemModel''],  \<comment> \<open>159\<close>
      Do [Call ''QFileSystemModel'' ''setRootPath''],  \<comment> \<open>160\<close>
      Do [Spy ''loadedSpy'' ''QFileSystemModel'' ''directoryLoaded(QString)''],  \<comment> \<open>162\<close>
      Check ''QVERIFY'' [OnSpy ''loadedSpy'' ''wait''],  \<comment> \<open>163\<close>
      Do [Call ''QFileSystemModel'' ''index''],  \<comment> \<open>165\<close>
      Check ''QVERIFY'' [Call ''QModelIndex'' ''isValid''],  \<comment> \<open>166\<close>
      Do [Call ''QFileSystemModel'' ''permissions''],  \<comment> \<open>168\<close>
      Check ''QVERIFY'' [],  \<comment> \<open>169\<close>
      Check ''QVERIFY'' []]  \<comment> \<open>172\<close>"

text \<open>Lines 175-197: \<open>void tst_QFileInfoGatherer::iconProvider()\<close>.\<close>

definition tst_QFileInfoGatherer_iconProvider :: "stmt list" where
  "tst_QFileInfoGatherer_iconProvider =
     [Do [New ''QFileSystemModel''],  \<comment> \<open>177\<close>
      Check ''QVERIFY'' [Call ''QFileSystemModel'' ''iconProvider''],  \<comment> \<open>180\<close>
      Do [New ''QFileIconProvider''],  \<comment> \<open>183\<close>
      Do [Call ''QFileSystemModel'' ''setIconProvider''],  \<comment> \<open>184\<close>
      Check ''QCOMPARE'' [Call ''QFileSystemModel'' ''iconProvider''],  \<comment> \<open>185\<close>
      Do [Call ''QFileSystemModel'' ''setRootPath''],  \<comment> \<open>188\<close>
      Do [Spy ''loadedSpy'' ''QFileSystemModel'' ''directoryLoaded(QString)''],  \<comment> \<open>189\<close>
      Check ''QVERIFY'' [OnSpy ''loadedSpy'' ''wait''],  \<comment> \<open>190\<close>
      Do [Call ''QFileSystemModel'' ''index''],  \<comment> \<open>192\<close>
      Check ''QVERIFY'' [Call ''QModelIndex'' ''isValid''],  \<comment> \<open>193\<close>
      Do
         [Call ''QFileSystemModel'' ''data'',
          Call ''QVariant'' ''value<QIcon>''],  \<comment> \<open>195\<close>
      Check ''QVERIFY'' [Call ''QIcon'' ''isNull'']]  \<comment> \<open>196\<close>"

text \<open>Lines 199-231: \<open>void tst_QFileInfoGatherer::fileWatching()\<close>.\<close>

definition tst_QFileInfoGatherer_fileWatching :: "stmt list" where
  "tst_QFileInfoGatherer_fileWatching =
     [Do [New ''QFileSystemModel''],  \<comment> \<open>201\<close>
      Do [Call ''QFileSystemModel'' ''setRootPath''],  \<comment> \<open>202\<close>
      Do [Spy ''loadedSpy'' ''QFileSystemModel'' ''directoryLoaded(QString)''],  \<comment> \<open>204\<close>
      Check ''QVERIFY'' [OnSpy ''loadedSpy'' ''wait''],  \<comment> \<open>205\<close>
      Do [],  \<comment> \<open>208\<close>
      Do [New ''QFile''],  \<comment> \<open>209\<close>
      Check ''QVERIFY'' [Call ''QFile'' ''open''],  \<comment> \<open>210\<close>
      Do [Call ''QFile'' ''write''],  \<comment> \<open>211\<close>
      Do [Call ''QFile'' ''close''],  \<comment> \<open>212\<close>
      Do [Spy ''fileChangedSpy'' ''QFileSystemModel'' ''fileChanged(QString,QString,QString)''],  \<comment> \<open>215\<close>
      Do [Spy ''directoryChangedSpy'' ''QFileSystemModel'' ''directoryLoaded(QString)''],  \<comment> \<open>216\<close>
      Do [Static ''QTest'' ''qWait''],  \<comment> \<open>219\<close>
      Check ''QVERIFY'' [Call ''QFile'' ''open''],  \<comment> \<open>222\<close>
      Do [Call ''QFile'' ''write''],  \<comment> \<open>223\<close>
      Do [Call ''QFile'' ''close''],  \<comment> \<open>224\<close>
      Do [Static ''QTest'' ''qWait''],  \<comment> \<open>227\<close>
      Do [Static ''QFile'' ''remove'']]  \<comment> \<open>230\<close>"

text \<open>
  The translation unit: the one class it declares (line 9) with its base class, and
  the member functions it defines, in file order.
\<close>

definition tst_qfileinfogatherer :: test_unit where
  "tst_qfileinfogatherer =
     \<lparr> tu_file = ''tst_qfileinfogatherer.cpp'',
       tu_classes = [(''tst_QFileInfoGatherer'', ''QObject'')],
       tu_functions =
         [\<lparr>fn_result = ''void'', fn_name = ''initTestCase'',
            fn_body = tst_QFileInfoGatherer_initTestCase\<rparr>,
          \<lparr>fn_result = ''void'', fn_name = ''cleanupTestCase'',
            fn_body = tst_QFileInfoGatherer_cleanupTestCase\<rparr>,
          \<lparr>fn_result = ''void'', fn_name = ''basicFileInfo'',
            fn_body = tst_QFileInfoGatherer_basicFileInfo\<rparr>,
          \<lparr>fn_result = ''void'', fn_name = ''directoryInfo'',
            fn_body = tst_QFileInfoGatherer_directoryInfo\<rparr>,
          \<lparr>fn_result = ''void'', fn_name = ''hiddenFiles'',
            fn_body = tst_QFileInfoGatherer_hiddenFiles\<rparr>,
          \<lparr>fn_result = ''void'', fn_name = ''symlinks'',
            fn_body = tst_QFileInfoGatherer_symlinks\<rparr>,
          \<lparr>fn_result = ''void'', fn_name = ''permissions'',
            fn_body = tst_QFileInfoGatherer_permissions\<rparr>,
          \<lparr>fn_result = ''void'', fn_name = ''iconProvider'',
            fn_body = tst_QFileInfoGatherer_iconProvider\<rparr>,
          \<lparr>fn_result = ''void'', fn_name = ''fileWatching'',
            fn_body = tst_QFileInfoGatherer_fileWatching\<rparr>] \<rparr>"

subsection \<open>tst_qfiledialog.cpp\<close>

text \<open>Lines 43-60: \<open>void tst_QFileDialog::initTestCase()\<close>.\<close>

definition tst_QFileDialog_initTestCase :: "stmt list" where
  "tst_QFileDialog_initTestCase =
     [Check ''QVERIFY'' [Call ''QTemporaryDir'' ''isValid''],  \<comment> \<open>45\<close>
      Do [Call ''QTemporaryDir'' ''path''],  \<comment> \<open>46\<close>
      Do [New ''QFile''],  \<comment> \<open>49\<close>
      Check ''QVERIFY'' [Call ''QFile'' ''open''],  \<comment> \<open>50\<close>
      Do [Call ''QFile'' ''write''],  \<comment> \<open>51\<close>
      Do [Call ''QFile'' ''close''],  \<comment> \<open>52\<close>
      Do [New ''QFile''],  \<comment> \<open>54\<close>
      Check ''QVERIFY'' [Call ''QFile'' ''open''],  \<comment> \<open>55\<close>
      Do [Call ''QFile'' ''write''],  \<comment> \<open>56\<close>
      Do [Call ''QFile'' ''close''],  \<comment> \<open>57\<close>
      Do [New ''QDir'', Call ''QDir'' ''mkdir'']]  \<comment> \<open>59\<close>"

text \<open>Lines 62-65: \<open>void tst_QFileDialog::cleanupTestCase()\<close>.\<close>

definition tst_QFileDialog_cleanupTestCase :: "stmt list" where
  "tst_QFileDialog_cleanupTestCase =
     []"

text \<open>Lines 67-76: \<open>void tst_QFileDialog::getOpenFileName()\<close>.\<close>

definition tst_QFileDialog_getOpenFileName :: "stmt list" where
  "tst_QFileDialog_getOpenFileName =
     [Do [Static ''QFileDialog'' ''getOpenFileName''],  \<comment> \<open>69\<close>
      Check ''QVERIFY'' []]  \<comment> \<open>75\<close>"

text \<open>Lines 78-87: \<open>void tst_QFileDialog::getSaveFileName()\<close>.\<close>

definition tst_QFileDialog_getSaveFileName :: "stmt list" where
  "tst_QFileDialog_getSaveFileName =
     [Do [Static ''QFileDialog'' ''getSaveFileName''],  \<comment> \<open>80\<close>
      Check ''QVERIFY'' []]  \<comment> \<open>86\<close>"

text \<open>Lines 89-97: \<open>void tst_QFileDialog::getExistingDirectory()\<close>.\<close>

definition tst_QFileDialog_getExistingDirectory :: "stmt list" where
  "tst_QFileDialog_getExistingDirectory =
     [Do [Static ''QFileDialog'' ''getExistingDirectory''],  \<comment> \<open>91\<close>
      Check ''QVERIFY'' []]  \<comment> \<open>96\<close>"

text \<open>Lines 99-108: \<open>void tst_QFileDialog::setDirectory()\<close>.\<close>

definition tst_QFileDialog_setDirectory :: "stmt list" where
  "tst_QFileDialog_setDirectory =
     [Do [New ''QFileDialog''],  \<comment> \<open>101\<close>
      Do [Call ''QFileDialog'' ''setDirectory''],  \<comment> \<open>102\<close>
      Check ''QCOMPARE''
         [Call ''QFileDialog'' ''directory'',
          Call ''QDir'' ''absolutePath''],  \<comment> \<open>103\<close>
      Do [New ''QDir''],  \<comment> \<open>105\<close>
      Do [Call ''QFileDialog'' ''setDirectory''],  \<comment> \<open>106\<close>
      Check ''QCOMPARE''
         [Call ''QFileDialog'' ''directory'',
          Call ''QDir'' ''absolutePath'']]  \<comment> \<open>107\<close>"

text \<open>Lines 110-121: \<open>void tst_QFileDialog::selectFile()\<close>.\<close>

definition tst_QFileDialog_selectFile :: "stmt list" where
  "tst_QFileDialog_selectFile =
     [Do [New ''QFileDialog''],  \<comment> \<open>112\<close>
      Do [Call ''QFileDialog'' ''setDirectory''],  \<comment> \<open>113\<close>
      Do [],  \<comment> \<open>115\<close>
      Do [Call ''QFileDialog'' ''selectFile''],  \<comment> \<open>116\<close>
      Do [Call ''QFileDialog'' ''selectedFiles''],  \<comment> \<open>118\<close>
      Check ''QVERIFY''
         [Call ''QStringList'' ''contains'',
          Call ''QStringList'' ''contains'']]  \<comment> \<open>119\<close>"

text \<open>Lines 123-131: \<open>void tst_QFileDialog::selectedFiles()\<close>.\<close>

definition tst_QFileDialog_selectedFiles :: "stmt list" where
  "tst_QFileDialog_selectedFiles =
     [Do [New ''QFileDialog''],  \<comment> \<open>125\<close>
      Do [Call ''QFileDialog'' ''setDirectory''],  \<comment> \<open>126\<close>
      Do [Call ''QFileDialog'' ''selectedFiles''],  \<comment> \<open>129\<close>
      Check ''QVERIFY'' [Call ''QStringList'' ''size'']]  \<comment> \<open>130\<close>"

text \<open>Lines 133-141: \<open>void tst_QFileDialog::setNameFilter()\<close>.\<close>

definition tst_QFileDialog_setNameFilter :: "stmt list" where
  "tst_QFileDialog_setNameFilter =
     [Do [New ''QFileDialog''],  \<comment> \<open>135\<close>
      Do [],  \<comment> \<open>136\<close>
      Do [Call ''QFileDialog'' ''setNameFilter''],  \<comment> \<open>137\<close>
      Do [Call ''QFileDialog'' ''nameFilters''],  \<comment> \<open>139\<close>
      Check ''QVERIFY'' [Call ''QStringList'' ''contains'']]  \<comment> \<open>140\<close>"

text \<open>Lines 143-153: \<open>void tst_QFileDialog::setNameFilters()\<close>.\<close>

definition tst_QFileDialog_setNameFilters :: "stmt list" where
  "tst_QFileDialog_setNameFilters =
     [Do [New ''QFileDialog''],  \<comment> \<open>145\<close>
      Do [New ''QStringList''],  \<comment> \<open>146\<close>
      Do [],  \<comment> \<open>147\<close>
      Do [Call ''QFileDialog'' ''setNameFilters''],  \<comment> \<open>151\<close>
      Check ''QCOMPARE'' [Call ''QFileDialog'' ''nameFilters'']]  \<comment> \<open>152\<close>"

text \<open>Lines 155-164: \<open>void tst_QFileDialog::setViewMode()\<close>.\<close>

definition tst_QFileDialog_setViewMode :: "stmt list" where
  "tst_QFileDialog_setViewMode =
     [Do [New ''QFileDialog''],  \<comment> \<open>157\<close>
      Do [Call ''QFileDialog'' ''setViewMode''],  \<comment> \<open>159\<close>
      Check ''QCOMPARE'' [Call ''QFileDialog'' ''viewMode''],  \<comment> \<open>160\<close>
      Do [Call ''QFileDialog'' ''setViewMode''],  \<comment> \<open>162\<close>
      Check ''QCOMPARE'' [Call ''QFileDialog'' ''viewMode'']]  \<comment> \<open>163\<close>"

text \<open>Lines 166-181: \<open>void tst_QFileDialog::setFileMode()\<close>.\<close>

definition tst_QFileDialog_setFileMode :: "stmt list" where
  "tst_QFileDialog_setFileMode =
     [Do [New ''QFileDialog''],  \<comment> \<open>168\<close>
      Do [Call ''QFileDialog'' ''setFileMode''],  \<comment> \<open>170\<close>
      Check ''QCOMPARE'' [Call ''QFileDialog'' ''fileMode''],  \<comment> \<open>171\<close>
      Do [Call ''QFileDialog'' ''setFileMode''],  \<comment> \<open>173\<close>
      Check ''QCOMPARE'' [Call ''QFileDialog'' ''fileMode''],  \<comment> \<open>174\<close>
      Do [Call ''QFileDialog'' ''setFileMode''],  \<comment> \<open>176\<close>
      Check ''QCOMPARE'' [Call ''QFileDialog'' ''fileMode''],  \<comment> \<open>177\<close>
      Do [Call ''QFileDialog'' ''setFileMode''],  \<comment> \<open>179\<close>
      Check ''QCOMPARE'' [Call ''QFileDialog'' ''fileMode'']]  \<comment> \<open>180\<close>"

text \<open>Lines 183-192: \<open>void tst_QFileDialog::setAcceptMode()\<close>.\<close>

definition tst_QFileDialog_setAcceptMode :: "stmt list" where
  "tst_QFileDialog_setAcceptMode =
     [Do [New ''QFileDialog''],  \<comment> \<open>185\<close>
      Do [Call ''QFileDialog'' ''setAcceptMode''],  \<comment> \<open>187\<close>
      Check ''QCOMPARE'' [Call ''QFileDialog'' ''acceptMode''],  \<comment> \<open>188\<close>
      Do [Call ''QFileDialog'' ''setAcceptMode''],  \<comment> \<open>190\<close>
      Check ''QCOMPARE'' [Call ''QFileDialog'' ''acceptMode'']]  \<comment> \<open>191\<close>"

text \<open>Lines 194-218: \<open>void tst_QFileDialog::options()\<close>.\<close>

definition tst_QFileDialog_options :: "stmt list" where
  "tst_QFileDialog_options =
     [Do [New ''QFileDialog''],  \<comment> \<open>196\<close>
      Do [Call ''QFileDialog'' ''options''],  \<comment> \<open>199\<close>
      Check ''QVERIFY'' [],  \<comment> \<open>200\<close>
      Do [Call ''QFileDialog'' ''setOption''],  \<comment> \<open>203\<close>
      Check ''QVERIFY'' [Call ''QFileDialog'' ''testOption''],  \<comment> \<open>204\<close>
      Do [Call ''QFileDialog'' ''setOption''],  \<comment> \<open>206\<close>
      Check ''QVERIFY'' [Call ''QFileDialog'' ''testOption''],  \<comment> \<open>207\<close>
      Do [New ''QFileDialog::Options''],  \<comment> \<open>210\<close>
      Do [Call ''QFileDialog::Options'' ''setFlag''],  \<comment> \<open>211\<close>
      Do [Call ''QFileDialog::Options'' ''setFlag''],  \<comment> \<open>212\<close>
      Do [Call ''QFileDialog'' ''setOptions''],  \<comment> \<open>213\<close>
      Check ''QVERIFY'' [Call ''QFileDialog'' ''testOption''],  \<comment> \<open>215\<close>
      Check ''QVERIFY'' [Call ''QFileDialog'' ''testOption''],  \<comment> \<open>216\<close>
      Check ''QVERIFY'' [Call ''QFileDialog'' ''testOption'']]  \<comment> \<open>217\<close>"

text \<open>Lines 220-233: \<open>void tst_QFileDialog::sidebarUrls()\<close>.\<close>

definition tst_QFileDialog_sidebarUrls :: "stmt list" where
  "tst_QFileDialog_sidebarUrls =
     [Do [New ''QFileDialog''],  \<comment> \<open>222\<close>
      Do [New ''QList<QUrl>''],  \<comment> \<open>224\<close>
      Do
         [Static ''QUrl'' ''fromLocalFile'',
          Static ''QUrl'' ''fromLocalFile'',
          Static ''QDir'' ''homePath''],  \<comment> \<open>225\<close>
      Do [Call ''QFileDialog'' ''setSidebarUrls''],  \<comment> \<open>228\<close>
      Do [Call ''QFileDialog'' ''sidebarUrls''],  \<comment> \<open>229\<close>
      Check ''QVERIFY'' [Call ''QList<QUrl>'' ''size'']]  \<comment> \<open>232\<close>"

text \<open>Lines 235-249: \<open>void tst_QFileDialog::history()\<close>.\<close>

definition tst_QFileDialog_history :: "stmt list" where
  "tst_QFileDialog_history =
     [Do [New ''QFileDialog''],  \<comment> \<open>237\<close>
      Do [New ''QStringList''],  \<comment> \<open>239\<close>
      Do
         [Static ''QDir'' ''homePath'',
          Static ''QDir'' ''tempPath''],  \<comment> \<open>240\<close>
      Do [Call ''QFileDialog'' ''setHistory''],  \<comment> \<open>244\<close>
      Do [Call ''QFileDialog'' ''history''],  \<comment> \<open>246\<close>
      Check ''QVERIFY'' [Call ''QStringList'' ''size'']]  \<comment> \<open>248\<close>"

text \<open>Lines 251-261: \<open>void tst_QFileDialog::defaultSuffix()\<close>.\<close>

definition tst_QFileDialog_defaultSuffix :: "stmt list" where
  "tst_QFileDialog_defaultSuffix =
     [Do [New ''QFileDialog''],  \<comment> \<open>253\<close>
      Do [],  \<comment> \<open>255\<close>
      Do [Call ''QFileDialog'' ''setDefaultSuffix''],  \<comment> \<open>256\<close>
      Check ''QCOMPARE'' [Call ''QFileDialog'' ''defaultSuffix''],  \<comment> \<open>257\<close>
      Do
         [Call ''QFileDialog'' ''setDefaultSuffix'',
          New ''QString''],  \<comment> \<open>259\<close>
      Check ''QCOMPARE''
         [Call ''QFileDialog'' ''defaultSuffix'',
          New ''QString'']]  \<comment> \<open>260\<close>"

text \<open>Lines 263-275: \<open>void tst_QFileDialog::mimeTypeFilters()\<close>.\<close>

definition tst_QFileDialog_mimeTypeFilters :: "stmt list" where
  "tst_QFileDialog_mimeTypeFilters =
     [Ifdef ''QT_CONFIG(mimetype)''  \<comment> \<open>265\<close>
        [Do [New ''QFileDialog''],  \<comment> \<open>266\<close>
         Do [New ''QStringList''],  \<comment> \<open>268\<close>
         Do [],  \<comment> \<open>269\<close>
         Do [Call ''QFileDialog'' ''setMimeTypeFilters''],  \<comment> \<open>272\<close>
         Check ''QCOMPARE'' [Call ''QFileDialog'' ''mimeTypeFilters'']]  \<comment> \<open>273\<close>
        []]"

text \<open>
  The translation unit: the one class it declares (line 13) with its base class, and
  the member functions it defines, in file order.
\<close>

definition tst_qfiledialog :: test_unit where
  "tst_qfiledialog =
     \<lparr> tu_file = ''tst_qfiledialog.cpp'',
       tu_classes = [(''tst_QFileDialog'', ''QObject'')],
       tu_functions =
         [\<lparr>fn_result = ''void'', fn_name = ''initTestCase'',
            fn_body = tst_QFileDialog_initTestCase\<rparr>,
          \<lparr>fn_result = ''void'', fn_name = ''cleanupTestCase'',
            fn_body = tst_QFileDialog_cleanupTestCase\<rparr>,
          \<lparr>fn_result = ''void'', fn_name = ''getOpenFileName'',
            fn_body = tst_QFileDialog_getOpenFileName\<rparr>,
          \<lparr>fn_result = ''void'', fn_name = ''getSaveFileName'',
            fn_body = tst_QFileDialog_getSaveFileName\<rparr>,
          \<lparr>fn_result = ''void'', fn_name = ''getExistingDirectory'',
            fn_body = tst_QFileDialog_getExistingDirectory\<rparr>,
          \<lparr>fn_result = ''void'', fn_name = ''setDirectory'',
            fn_body = tst_QFileDialog_setDirectory\<rparr>,
          \<lparr>fn_result = ''void'', fn_name = ''selectFile'',
            fn_body = tst_QFileDialog_selectFile\<rparr>,
          \<lparr>fn_result = ''void'', fn_name = ''selectedFiles'',
            fn_body = tst_QFileDialog_selectedFiles\<rparr>,
          \<lparr>fn_result = ''void'', fn_name = ''setNameFilter'',
            fn_body = tst_QFileDialog_setNameFilter\<rparr>,
          \<lparr>fn_result = ''void'', fn_name = ''setNameFilters'',
            fn_body = tst_QFileDialog_setNameFilters\<rparr>,
          \<lparr>fn_result = ''void'', fn_name = ''setViewMode'',
            fn_body = tst_QFileDialog_setViewMode\<rparr>,
          \<lparr>fn_result = ''void'', fn_name = ''setFileMode'',
            fn_body = tst_QFileDialog_setFileMode\<rparr>,
          \<lparr>fn_result = ''void'', fn_name = ''setAcceptMode'',
            fn_body = tst_QFileDialog_setAcceptMode\<rparr>,
          \<lparr>fn_result = ''void'', fn_name = ''options'',
            fn_body = tst_QFileDialog_options\<rparr>,
          \<lparr>fn_result = ''void'', fn_name = ''sidebarUrls'',
            fn_body = tst_QFileDialog_sidebarUrls\<rparr>,
          \<lparr>fn_result = ''void'', fn_name = ''history'',
            fn_body = tst_QFileDialog_history\<rparr>,
          \<lparr>fn_result = ''void'', fn_name = ''defaultSuffix'',
            fn_body = tst_QFileDialog_defaultSuffix\<rparr>,
          \<lparr>fn_result = ''void'', fn_name = ''mimeTypeFilters'',
            fn_body = tst_QFileDialog_mimeTypeFilters\<rparr>] \<rparr>"


subsection \<open>The suite\<close>

definition test_suite :: "test_unit list" where
  "test_suite = [tst_qfilesystemwatcher, tst_qfilesystemmodel, tst_qfileinfogatherer, tst_qfiledialog]"

subsection \<open>Reading a script\<close>

text \<open>
  The toolkit calls written in a statement, nested statements included, in source order.
  Under a preprocessor conditional the calls of both sides are listed, whichever side a
  build compiles; the list serves to look up the spies a script declares.
\<close>

fun calls :: "stmt \<Rightarrow> call list" where
  "calls (Do cs) = cs"
| "calls (Check m cs) = cs"
| "calls (Cond cs body) = cs @ concat (map calls body)"
| "calls (Loop body) = concat (map calls body)"
| "calls (Ifdef c yes no) = concat (map calls yes) @ concat (map calls no)"
| "calls (Return cs) = cs"
| "calls (Throw cs) = cs"

definition calls_of :: "stmt list \<Rightarrow> call list" where
  "calls_of body = concat (map calls body)"

text \<open>
  The simple statements of a script in source order: a condition is evaluated before
  its body, loop bodies and both sides of a preprocessor conditional are listed once.
\<close>

fun flat :: "stmt \<Rightarrow> stmt list" where
  "flat (Do cs) = [Do cs]"
| "flat (Check m cs) = [Check m cs]"
| "flat (Cond cs body) = Do cs # concat (map flat body)"
| "flat (Loop body) = concat (map flat body)"
| "flat (Ifdef c yes no) = concat (map flat yes) @ concat (map flat no)"
| "flat (Return cs) = [Return cs]"
| "flat (Throw cs) = [Throw cs]"

definition steps :: "stmt list \<Rightarrow> stmt list" where
  "steps body = concat (map flat body)"

subsection \<open>Waiting for a signal before asserting on it\<close>

text \<open>The spies a script declares: variable and signal signature.\<close>

fun spy_decl :: "call \<Rightarrow> (string \<times> string) list" where
  "spy_decl (Spy v c s) = [(v, s)]"
| "spy_decl k = []"

definition spies :: "stmt list \<Rightarrow> (string \<times> string) list" where
  "spies body = concat (map spy_decl (calls_of body))"

text \<open>The name of a signal: its signature up to the parameter list.\<close>

definition signal_name :: "string \<Rightarrow> string" where
  "signal_name s = takeWhile (\<lambda>c. c \<noteq> CHR ''('') s"

text \<open>
  A polling or timeout-bounded wait step: a \<open>QTRY_VERIFY\<close>, a statement calling
  \<open>QSignalSpy::wait\<close>, or a statement calling \<open>QTest::qWait\<close>.
\<close>

fun wait_call :: "call \<Rightarrow> bool" where
  "wait_call (OnSpy v f) = (f = ''wait'')"
| "wait_call (Static c f) = (c = ''QTest'' \<and> f = ''qWait'')"
| "wait_call k = False"

fun is_wait :: "stmt \<Rightarrow> bool" where
  "is_wait (Check m cs) = (m = ''QTRY_VERIFY'' \<or> list_ex wait_call cs)"
| "is_wait (Do cs) = list_ex wait_call cs"
| "is_wait s = False"

text \<open>
  A statement asserts on a signal when it is a macro invocation whose argument calls a
  member of a spy declared for that signal.
\<close>

fun on_spy_of :: "(string \<times> string) list \<Rightarrow> string \<Rightarrow> call \<Rightarrow> bool" where
  "on_spy_of sp sig (OnSpy v f) = (map_option signal_name (map_of sp v) = Some sig)"
| "on_spy_of sp sig k = False"

fun asserts_signal :: "(string \<times> string) list \<Rightarrow> string \<Rightarrow> stmt \<Rightarrow> bool" where
  "asserts_signal sp sig (Check m cs) = list_ex (on_spy_of sp sig) cs"
| "asserts_signal sp sig s = False"

text \<open>
  One pass over the steps: \<open>waited\<close> says that a wait step has been passed. Every
  assertion on the signal must be a wait step itself or come after one.
\<close>

fun awaited_steps :: "(string \<times> string) list \<Rightarrow> string \<Rightarrow> bool \<Rightarrow> stmt list \<Rightarrow> bool" where
  "awaited_steps sp sig waited [] = True"
| "awaited_steps sp sig waited (s # ss) =
     ((asserts_signal sp sig s \<longrightarrow> waited \<or> is_wait s)
      \<and> awaited_steps sp sig (waited \<or> is_wait s) ss)"

definition awaited :: "string \<Rightarrow> stmt list \<Rightarrow> bool" where
  "awaited sig body = awaited_steps (spies body) sig False (steps body)"

subsection \<open>How a test function reports failure\<close>

text \<open>
  A step is in order when it is a \<open>QVERIFY\<close>, \<open>QCOMPARE\<close> or \<open>QTRY_VERIFY\<close>
  invocation or a plain statement; any other macro, a \<open>return\<close> with a value and a
  \<open>throw\<close> are not.
\<close>

fun qtest_only :: "stmt \<Rightarrow> bool" where
  "qtest_only (Check m cs) = (m \<in> set [''QVERIFY'', ''QCOMPARE'', ''QTRY_VERIFY''])"
| "qtest_only (Do cs) = True"
| "qtest_only s = False"

section \<open>Properties of the excerpt\<close>

lemma setRootPath_same:
  "path (rootDir m) = longNewPath x p \<Longrightarrow> setRootPath x p m = (d_index x m (path (rootDir m)), m)"
  by (simp add: setRootPath_def rootPath_def Let_def)

lemma setRootPath_other_emitted:
  "path (rootDir m) \<noteq> longNewPath x p \<Longrightarrow>
   emitted (snd (setRootPath x p m)) = emitted m @ [rootPathChanged (longNewPath x p)]"
  by (simp add: setRootPath_def Let_def split: prod.splits)

lemma setRootPath_other_rootDir:
  "path (rootDir m) \<noteq> longNewPath x p \<Longrightarrow>
   rootDir (snd (setRootPath x p m)) =
     (if showDrives x (longNewPath x p) then setPath x [] (QDir_new x (longNewPath x p))
      else QDir_new x (longNewPath x p))"
  by (simp add: setRootPath_def Let_def split: prod.splits)

lemma setRootPath_other_forceSort:
  "path (rootDir m) \<noteq> longNewPath x p \<Longrightarrow> forceSort (snd (setRootPath x p m))"
  by (simp add: setRootPath_def Let_def split: prod.splits)

lemma plain_longNewPath: "longNewPath plain p = p"
  by (simp add: longNewPath_def plain_def)

subsection \<open>rootDirectory\<close>

text \<open>
  Claim C9. \<open>rootDirectory()\<close> is a pure observer: in every model state the \<open>QDir\<close>
  it returns has the path \<open>rootPath()\<close> returns, the name filters \<open>nameFilters()\<close>
  returns and the entry filter \<open>filter()\<close> returns, it is made of these three pieces
  and nothing else, and the model after the call is the model before it.
\<close>

theorem rootDirectory_observer:
  "path (fst (rootDirectory x m)) = fst (rootPath m)
   \<and> dir_nameFilters (fst (rootDirectory x m)) = nameFilters x m
   \<and> dir_filter (fst (rootDirectory x m)) = filter_of x m
   \<and> fst (rootDirectory x m) =
       \<lparr>dir_path = fst (rootPath m), dir_nameFilters = nameFilters x m,
        dir_filter = filter_of x m\<rparr>
   \<and> snd (rootDirectory x m) = m"
  by (simp add: rootDirectory_def rootPath_def path_def setNameFilters_def setFilter_def)

subsection \<open>setRootPath on the current root\<close>

text \<open>
  Claim C4, as amended. When the converted path equals the path of the current root
  directory, \<open>setRootPath\<close> returns the index of the current root path, leaves every
  component of the model unchanged and emits nothing. Of two consecutive calls with the
  same path, the second changes nothing and emits nothing provided that \<open>rootPath()\<close>
  after the first call is the converted path; without that proviso the second call can
  set the root and emit again (see the counterexample).
\<close>

theorem setRootPath_current_root:
  "(longNewPath x p = path (rootDir m) \<longrightarrow>
      setRootPath x p m = (d_index x m (fst (rootPath m)), m)
      \<and> emitted (snd (setRootPath x p m)) = emitted m)
   \<and> (fst (rootPath (snd (setRootPath x p m))) = longNewPath x p \<longrightarrow>
      snd (setRootPath x p (snd (setRootPath x p m))) = snd (setRootPath x p m)
      \<and> emitted (snd (setRootPath x p (snd (setRootPath x p m))))
          = emitted (snd (setRootPath x p m)))"
proof (intro conjI impI)
  assume same: "longNewPath x p = path (rootDir m)"
  then show "setRootPath x p m = (d_index x m (fst (rootPath m)), m)"
    by (simp add: setRootPath_same rootPath_def)
  from same show "emitted (snd (setRootPath x p m)) = emitted m"
    by (simp add: setRootPath_same)
next
  assume "fst (rootPath (snd (setRootPath x p m))) = longNewPath x p"
  then have kept: "path (rootDir (snd (setRootPath x p m))) = longNewPath x p"
    by (simp add: rootPath_def)
  show "snd (setRootPath x p (snd (setRootPath x p m))) = snd (setRootPath x p m)"
    by (simp add: setRootPath_same [OF kept])
  then show "emitted (snd (setRootPath x p (snd (setRootPath x p m))))
      = emitted (snd (setRootPath x p m))"
    by simp
qed

lemma plain_tmp_after:
  "setRootPath plain ''/tmp'' fresh =
     (Some ''/tmp'',
      \<lparr> rootDir = \<lparr>dir_path = ''/tmp'', dir_nameFilters = [], dir_filter = 0\<rparr>,
        forceSort = True, elided = ([''*.txt''], 7),
        emitted = [rootPathChanged ''/tmp''] \<rparr>)"
  by (simp add: setRootPath_def longNewPath_def plain_def fresh_def path_def Let_def)

theorem setRootPath_current_root_witness:
  "longNewPath plain ''/tmp'' = path (rootDir (snd (setRootPath plain ''/tmp'' fresh)))
   \<and> fst (rootPath (snd (setRootPath plain ''/tmp'' (snd (setRootPath plain ''/tmp'' fresh)))))
       = longNewPath plain ''/tmp''
   \<and> setRootPath plain ''/tmp'' (snd (setRootPath plain ''/tmp'' fresh))
       = (Some ''/tmp'', snd (setRootPath plain ''/tmp'' fresh))
   \<and> emitted (snd (setRootPath plain ''/tmp'' (snd (setRootPath plain ''/tmp'' fresh))))
       = [rootPathChanged ''/tmp'']"
proof -
  have same: "longNewPath plain ''/tmp'' = path (rootDir (snd (setRootPath plain ''/tmp'' fresh)))"
    by (simp add: plain_tmp_after plain_longNewPath path_def)
  have idx: "d_index plain m q = Some q" for m :: "(string list \<times> int) QFileSystemModel" and q
    by (simp add: plain_def)
  from same setRootPath_current_root [of plain "''/tmp''" "snd (setRootPath plain ''/tmp'' fresh)"]
  have call: "setRootPath plain ''/tmp'' (snd (setRootPath plain ''/tmp'' fresh))
      = (d_index plain (snd (setRootPath plain ''/tmp'' fresh))
           (fst (rootPath (snd (setRootPath plain ''/tmp'' fresh)))),
         snd (setRootPath plain ''/tmp'' fresh))"
    by blast
  show ?thesis
    using same call
    by (simp add: idx plain_tmp_after plain_longNewPath rootPath_def path_def)
qed

text \<open>
  The claim as first stated ends with: of two consecutive calls with the same path, the
  second changes nothing and emits nothing. With the drives view requested
  (\<open>showDrives\<close>), line 141 empties the root path, so the second call with the same
  name finds a different root, sets it and emits again.
\<close>

theorem setRootPath_twice_counterexample:
  "snd (setRootPath plain ''Computer'' (snd (setRootPath plain ''Computer'' fresh)))
     \<noteq> snd (setRootPath plain ''Computer'' fresh)
   \<and> emitted (snd (setRootPath plain ''Computer'' fresh)) = [rootPathChanged ''Computer'']
   \<and> emitted (snd (setRootPath plain ''Computer'' (snd (setRootPath plain ''Computer'' fresh))))
       = [rootPathChanged ''Computer'', rootPathChanged ''Computer'']"
  by (simp add: setRootPath_def longNewPath_def plain_def fresh_def path_def rootPath_def Let_def)

subsection \<open>setRootPath on a new root\<close>

text \<open>
  Claim C5, as amended. When the converted path differs from the path of the current
  root directory, \<open>setRootPath\<close> emits \<open>rootPathChanged\<close> exactly once, with the
  converted path as its argument, sets the force-sort flag, and sets the root directory
  to the \<open>QDir\<close> of the converted path, or, when \<open>showDrives\<close> holds, to that
  \<open>QDir\<close> after \<open>setPath("")\<close>; afterwards \<open>rootPath()\<close> returns the path of
  that root directory.
\<close>

theorem setRootPath_new_root:
  "longNewPath x p \<noteq> path (rootDir m) \<Longrightarrow>
     emitted (snd (setRootPath x p m)) = emitted m @ [rootPathChanged (longNewPath x p)]
     \<and> forceSort (snd (setRootPath x p m))
     \<and> rootDir (snd (setRootPath x p m)) =
         (if showDrives x (longNewPath x p) then setPath x [] (QDir_new x (longNewPath x p))
          else QDir_new x (longNewPath x p))
     \<and> fst (rootPath (snd (setRootPath x p m))) =
         path (if showDrives x (longNewPath x p) then setPath x [] (QDir_new x (longNewPath x p))
               else QDir_new x (longNewPath x p))"
proof -
  assume "longNewPath x p \<noteq> path (rootDir m)"
  then have other: "path (rootDir m) \<noteq> longNewPath x p" by simp
  show ?thesis
    using setRootPath_other_emitted [OF other] setRootPath_other_forceSort [OF other]
      setRootPath_other_rootDir [OF other]
    by (simp add: rootPath_def)
qed

theorem setRootPath_new_root_witness:
  "longNewPath plain ''/tmp'' \<noteq> path (rootDir fresh)
   \<and> emitted (snd (setRootPath plain ''/tmp'' fresh)) = [rootPathChanged ''/tmp'']
   \<and> forceSort (snd (setRootPath plain ''/tmp'' fresh))
   \<and> rootDir (snd (setRootPath plain ''/tmp'' fresh)) = QDir_new plain ''/tmp''
   \<and> fst (rootPath (snd (setRootPath plain ''/tmp'' fresh))) = ''/tmp''"
proof -
  have other: "longNewPath plain ''/tmp'' \<noteq> path (rootDir fresh)"
    by (simp add: plain_longNewPath fresh_def path_def)
  have no_drives: "\<not> showDrives plain ''/tmp''"
    by (simp add: plain_def)
  have new: "QDir_new plain ''/tmp'' = \<lparr>dir_path = ''/tmp'', dir_nameFilters = [], dir_filter = 0\<rparr>"
    by (simp add: plain_def)
  have "emitted fresh = []"
    by (simp add: fresh_def)
  with setRootPath_new_root [OF other] other no_drives show ?thesis
    by (simp add: plain_longNewPath new path_def)
qed

text \<open>
  The claim as first stated has the root directory become the \<open>QDir\<close> of the
  converted path in every case. Asked for the drives view, the code resets that
  directory's path (lines 140-141), and \<open>rootPath()\<close> is empty afterwards.
\<close>

theorem setRootPath_new_root_counterexample:
  "longNewPath plain ''Computer'' \<noteq> path (rootDir fresh)
   \<and> rootDir (snd (setRootPath plain ''Computer'' fresh)) \<noteq> QDir_new plain ''Computer''
   \<and> path (QDir_new plain ''Computer'') = ''Computer''
   \<and> fst (rootPath (snd (setRootPath plain ''Computer'' fresh))) = []"
  by (simp add: setRootPath_def longNewPath_def plain_def fresh_def path_def rootPath_def Let_def)

subsection \<open>Which member functions do work\<close>




section \<open>Properties of the test suite\<close>

subsection \<open>Unfolding the scripts\<close>

lemmas watcher_bodies =
  tst_QFileSystemWatcher_initTestCase_def tst_QFileSystemWatcher_cleanupTestCase_def
  tst_QFileSystemWatcher_addPath_def tst_QFileSystemWatcher_addPaths_def
  tst_QFileSystemWatcher_removePath_def tst_QFileSystemWatcher_removePaths_def
  tst_QFileSystemWatcher_files_def tst_QFileSystemWatcher_directories_def
  tst_QFileSystemWatcher_fileChanged_def tst_QFileSystemWatcher_directoryChanged_def
  tst_QFileSystemWatcher_multipleWatchers_def

lemmas model_bodies =
  tst_QFileSystemModel_initTestCase_def tst_QFileSystemModel_cleanupTestCase_def
  tst_QFileSystemModel_rootPath_def tst_QFileSystemModel_index_def
  tst_QFileSystemModel_data_def tst_QFileSystemModel_setRootPath_def
  tst_QFileSystemModel_rowCount_def tst_QFileSystemModel_remove_def
  tst_QFileSystemModel_mkdir_def tst_QFileSystemModel_filters_def
  tst_QFileSystemModel_nameFilters_def tst_QFileSystemModel_permissions_def
  tst_QFileSystemModel_fileInfo_def tst_QFileSystemModel_sort_def
  tst_QFileSystemModel_icons_def tst_QFileSystemModel_hidden_def
  tst_QFileSystemModel_myComputer_def tst_QFileSystemModel_shortcut_def
  tst_QFileSystemModel_caseSensitivity_def tst_QFileSystemModel_drives_def

lemmas gatherer_bodies =
  tst_QFileInfoGatherer_initTestCase_def tst_QFileInfoGatherer_cleanupTestCase_def
  tst_QFileInfoGatherer_basicFileInfo_def tst_QFileInfoGatherer_directoryInfo_def
  tst_QFileInfoGatherer_hiddenFiles_def tst_QFileInfoGatherer_symlinks_def
  tst_QFileInfoGatherer_permissions_def tst_QFileInfoGatherer_iconProvider_def
  tst_QFileInfoGatherer_fileWatching_def

lemmas dialog_bodies =
  tst_QFileDialog_initTestCase_def tst_QFileDialog_cleanupTestCase_def
  tst_QFileDialog_getOpenFileName_def tst_QFileDialog_getSaveFileName_def
  tst_QFileDialog_getExistingDirectory_def tst_QFileDialog_setDirectory_def
  tst_QFileDialog_selectFile_def tst_QFileDialog_selectedFiles_def
  tst_QFileDialog_setNameFilter_def tst_QFileDialog_setNameFilters_def
  tst_QFileDialog_setViewMode_def tst_QFileDialog_setFileMode_def
  tst_QFileDialog_setAcceptMode_def tst_QFileDialog_options_def tst_QFileDialog_sidebarUrls_def
  tst_QFileDialog_history_def tst_QFileDialog_defaultSuffix_def
  tst_QFileDialog_mimeTypeFilters_def

lemmas script_defs = steps_def spies_def calls_of_def signal_name_def

text \<open>
  What the pass \<open>awaited_steps\<close> decides: every assertion on the signal has a wait
  step at its own position or before it.
\<close>

lemma awaited_steps_iff:
  "awaited_steps sp sig w ss \<longleftrightarrow>
     (\<forall>i < length ss. asserts_signal sp sig (ss ! i) \<longrightarrow> w \<or> list_ex is_wait (take (Suc i) ss))"
proof (induction ss arbitrary: w)
  case Nil
  show ?case by simp
next
  case (Cons s ss)
  show ?case
    by (auto simp: Cons.IH less_Suc_eq_0_disj)
qed

lemma awaited_iff:
  "awaited sig body \<longleftrightarrow>
     (\<forall>i < length (steps body). asserts_signal (spies body) sig (steps body ! i) \<longrightarrow>
        list_ex is_wait (take (Suc i) (steps body)))"
  by (simp add: awaited_def awaited_steps_iff)

lemma watcher_awaited:
  "list_all (\<lambda>f. awaited ''directoryLoaded'' (fn_body f) \<and> awaited ''fileChanged'' (fn_body f))
     (tu_functions tst_qfilesystemwatcher)"
  by (simp add: tst_qfilesystemwatcher_def awaited_def script_defs watcher_bodies)

lemma model_awaited:
  "list_all (\<lambda>f. awaited ''directoryLoaded'' (fn_body f) \<and> awaited ''fileChanged'' (fn_body f))
     (tu_functions tst_qfilesystemmodel)"
  by (simp add: tst_qfilesystemmodel_def awaited_def script_defs model_bodies)

lemma gatherer_awaited:
  "list_all (\<lambda>f. awaited ''directoryLoaded'' (fn_body f) \<and> awaited ''fileChanged'' (fn_body f))
     (tu_functions tst_qfileinfogatherer)"
  by (simp add: tst_qfileinfogatherer_def awaited_def script_defs gatherer_bodies)

lemma dialog_awaited:
  "list_all (\<lambda>f. awaited ''directoryLoaded'' (fn_body f) \<and> awaited ''fileChanged'' (fn_body f))
     (tu_functions tst_qfiledialog)"
  by (simp add: tst_qfiledialog_def awaited_def script_defs dialog_bodies)

subsection \<open>Waiting for asynchronous notifications\<close>

text \<open>
  Claim C2, as amended. The notifications \<open>directoryLoaded\<close> and \<open>fileChanged\<close> are
  awaited: in every test function of the four units, a statement that asserts on a spy
  of one of these two signals is a polling or timeout-bounded wait step itself
  (\<open>QTRY_VERIFY\<close>, \<open>QVERIFY\<close> of \<open>QSignalSpy::wait\<close>) or comes after one
  (\<open>QTRY_VERIFY\<close>, \<open>QSignalSpy::wait\<close>, \<open>QTest::qWait\<close>). \<open>rootPathChanged\<close>
  is left out: it is asserted without any wait (see the counterexample).
\<close>

theorem loaded_and_changed_awaited:
  "\<forall>u \<in> set test_suite. \<forall>f \<in> set (tu_functions u).
     \<forall>sig \<in> set [''directoryLoaded'', ''fileChanged''].
       \<forall>i < length (steps (fn_body f)).
         asserts_signal (spies (fn_body f)) sig (steps (fn_body f) ! i) \<longrightarrow>
           list_ex is_wait (take (Suc i) (steps (fn_body f)))"
proof -
  have "\<forall>u \<in> set test_suite. \<forall>f \<in> set (tu_functions u).
      awaited ''directoryLoaded'' (fn_body f) \<and> awaited ''fileChanged'' (fn_body f)"
    using watcher_awaited model_awaited gatherer_awaited dialog_awaited
    by (simp add: test_suite_def list_all_iff)
  then show ?thesis
    by (simp add: awaited_iff)
qed

theorem loaded_and_changed_awaited_witness:
  "tst_qfilesystemwatcher \<in> set test_suite
   \<and> \<lparr>fn_result = ''void'', fn_name = ''fileChanged'',
        fn_body = tst_QFileSystemWatcher_fileChanged\<rparr> \<in> set (tu_functions tst_qfilesystemwatcher)
   \<and> ''fileChanged'' \<in> set [''directoryLoaded'', ''fileChanged'']
   \<and> 12 < length (steps tst_QFileSystemWatcher_fileChanged)
   \<and> asserts_signal (spies tst_QFileSystemWatcher_fileChanged) ''fileChanged''
        (steps tst_QFileSystemWatcher_fileChanged ! 12)
   \<and> list_ex is_wait (take (Suc 12) (steps tst_QFileSystemWatcher_fileChanged))"
proof -
  let ?f = "\<lparr>fn_result = ''void'', fn_name = ''fileChanged'',
              fn_body = tst_QFileSystemWatcher_fileChanged\<rparr>"
  have u: "tst_qfilesystemwatcher \<in> set test_suite"
    by (simp add: test_suite_def)
  have f: "?f \<in> set (tu_functions tst_qfilesystemwatcher)"
    by (simp add: tst_qfilesystemwatcher_def)
  have s: "''fileChanged'' \<in> set [''directoryLoaded'', ''fileChanged'']"
    by simp
  have i: "12 < length (steps tst_QFileSystemWatcher_fileChanged)"
    by (simp add: script_defs tst_QFileSystemWatcher_fileChanged_def)
  have a: "asserts_signal (spies tst_QFileSystemWatcher_fileChanged) ''fileChanged''
      (steps tst_QFileSystemWatcher_fileChanged ! 12)"
    by (simp add: script_defs tst_QFileSystemWatcher_fileChanged_def)
  from loaded_and_changed_awaited [rule_format, OF u f s, of 12] i a
  have "list_ex is_wait (take (Suc 12) (steps tst_QFileSystemWatcher_fileChanged))"
    by simp
  with u f s i a show ?thesis
    by simp
qed

text \<open>
  The claim as first stated also counts \<open>rootPathChanged\<close> among the awaited
  notifications. \<open>tst_QFileSystemModel::setRootPath\<close> asserts on its spy at line 144
  (the sixth step) and no step of the function is a wait.
\<close>

theorem rootPathChanged_awaited_counterexample:
  "tst_qfilesystemmodel \<in> set test_suite
   \<and> \<lparr>fn_result = ''void'', fn_name = ''setRootPath'',
        fn_body = tst_QFileSystemModel_setRootPath\<rparr> \<in> set (tu_functions tst_qfilesystemmodel)
   \<and> steps tst_QFileSystemModel_setRootPath ! 5 = Check ''QCOMPARE'' [OnSpy ''rootPathChangedSpy'' ''count'']
   \<and> asserts_signal (spies tst_QFileSystemModel_setRootPath) ''rootPathChanged''
        (steps tst_QFileSystemModel_setRootPath ! 5)
   \<and> \<not> list_ex is_wait (steps tst_QFileSystemModel_setRootPath)"
  by (simp add: test_suite_def tst_qfilesystemmodel_def script_defs tst_QFileSystemModel_setRootPath_def)

subsection \<open>How failures are reported\<close>

text \<open>
  Claim C6. Every test function of the four units reports failure through
  \<open>QVERIFY\<close>, \<open>QCOMPARE\<close> and \<open>QTRY_VERIFY\<close> only: each is declared with result
  type \<open>void\<close>, none of its statements returns a value, throws or invokes another
  macro, and the only class a unit declares is its fixture, derived from \<open>QObject\<close>,
  so no error type is defined.
\<close>

theorem failures_through_qtest_macros:
  "\<forall>u \<in> set test_suite.
     length (tu_classes u) = 1
     \<and> (\<forall>d \<in> set (tu_classes u). snd d = ''QObject'')
     \<and> (\<forall>f \<in> set (tu_functions u).
          fn_result f = ''void'' \<and> (\<forall>s \<in> set (steps (fn_body f)). qtest_only s))"
proof -
  let ?ok = "\<lambda>u. length (tu_classes u) = 1
     \<and> list_all (\<lambda>d. snd d = ''QObject'') (tu_classes u)
     \<and> list_all (\<lambda>f. fn_result f = ''void'' \<and> list_all qtest_only (steps (fn_body f)))
          (tu_functions u)"
  have w: "?ok tst_qfilesystemwatcher"
    by (simp add: tst_qfilesystemwatcher_def steps_def watcher_bodies)
  have m: "?ok tst_qfilesystemmodel"
    by (simp add: tst_qfilesystemmodel_def steps_def model_bodies)
  have g: "?ok tst_qfileinfogatherer"
    by (simp add: tst_qfileinfogatherer_def steps_def gatherer_bodies)
  have d: "?ok tst_qfiledialog"
    by (simp add: tst_qfiledialog_def steps_def dialog_bodies)
  from w m g d have "\<forall>u \<in> set test_suite. ?ok u"
    by (simp add: test_suite_def)
  then show ?thesis
    unfolding list_all_iff by blast
qed

theorem failures_through_qtest_macros_witness:
  "tst_qfiledialog \<in> set test_suite
   \<and> (''tst_QFileDialog'', ''QObject'') \<in> set (tu_classes tst_qfiledialog)
   \<and> \<lparr>fn_result = ''void'', fn_name = ''getOpenFileName'',
        fn_body = tst_QFileDialog_getOpenFileName\<rparr> \<in> set (tu_functions tst_qfiledialog)
   \<and> Check ''QVERIFY'' [] \<in> set (steps tst_QFileDialog_getOpenFileName)
   \<and> qtest_only (Check ''QVERIFY'' [])"
proof -
  let ?f = "\<lparr>fn_result = ''void'', fn_name = ''getOpenFileName'',
              fn_body = tst_QFileDialog_getOpenFileName\<rparr>"
  have u: "tst_qfiledialog \<in> set test_suite"
    by (simp add: test_suite_def)
  have d: "(''tst_QFileDialog'', ''QObject'') \<in> set (tu_classes tst_qfiledialog)"
    by (simp add: tst_qfiledialog_def)
  have f: "?f \<in> set (tu_functions tst_qfiledialog)"
    by (simp add: tst_qfiledialog_def)
  have s: "Check ''QVERIFY'' [] \<in> set (steps (fn_body ?f))"
    by (simp add: steps_def tst_QFileDialog_getOpenFileName_def)
  from failures_through_qtest_macros u f s have "qtest_only (Check ''QVERIFY'' [])"
    by blast
  with u d f s show ?thesis
    by simp
qed

end
